theory Spec2Isabelle
  imports Complex_Main
begin

section \<open>Schema types of the object-document mapper\<close>

text \<open>
  The two source files, \<^verbatim>\<open>Guide.model.ts\<close> and \<^verbatim>\<open>Homestay.model.ts\<close>, are
  declarative: each builds Mongoose schemas from option objects
  (\<^verbatim>\<open>{ type: Number, required: true, min: 0 }\<close>) and declares indexes. The options are
  embedded as data, one definition per schema path, and the mapper's reading of the
  options (setters, defaults, validators) is embedded once, below, and shared by every path.
  The mapper is a library the repository imports, not code of the repository: its functions
  here follow the library's documented behaviour for exactly the options the source uses.

  Values: a JavaScript number is a \<^typ>\<open>real\<close> (the finite numbers; the mapper's cast refuses
  \<^verbatim>\<open>NaN\<close> before any validator runs), a string is a \<^typ>\<open>string\<close> (the bytes of its
  UTF-8 encoding, for well-formed text), an array of strings a
  \<^typ>\<open>string list\<close>, a \<^verbatim>\<open>Date\<close> an \<^typ>\<open>int\<close> (milliseconds), and a key that is absent
  (\<^verbatim>\<open>undefined\<close>) is \<^term>\<open>None\<close>. TypeScript's field types are erased at run time, so
  every key of an input may be absent: presence is what \<^verbatim>\<open>required\<close> checks.
\<close>

text \<open>The kinds of a validator error: \<^verbatim>\<open>required\<close>, \<^verbatim>\<open>min\<close>, \<^verbatim>\<open>enum\<close>,
  \<^verbatim>\<open>maxlength\<close> and \<^verbatim>\<open>user defined\<close> (a \<^verbatim>\<open>validate\<close> option).\<close>

datatype error_kind = KRequired | KMin | KEnum | KMaxlength | KUserDefined

text \<open>One failed path: the path, the kind, and the message when the schema gives its own
  (otherwise the mapper's template for the kind).\<close>

datatype validator_error = ValidatorError string error_kind "string option"

fun err_path :: "validator_error \<Rightarrow> string" where
  "err_path (ValidatorError p k m) = p"

fun err_kind :: "validator_error \<Rightarrow> error_kind" where
  "err_kind (ValidatorError p k m) = k"

text \<open>The options of a schema path, as the source writes them. \<^verbatim>\<open>required: true\<close> is
  \<open>(True, None)\<close> and \<^verbatim>\<open>required: [true, 'Name is required']\<close> is
  \<open>(True, Some ''Name is required'')\<close>; \<^verbatim>\<open>validate: { validator, message }\<close> is the pair.\<close>

record 'v SchemaTypeOptions =
  required :: "bool \<times> string option"
  default_opt :: "'v option"
  min_opt :: "real option"
  enum_opt :: "string list option"
  trim :: bool
  maxlength :: "nat option"
  validate :: "(('v \<Rightarrow> bool) \<times> string) option"

text \<open>A path with no option but its type.\<close>

definition SchemaType :: "'v SchemaTypeOptions" where
  "SchemaType = \<lparr>required = (False, None), default_opt = None, min_opt = None,
     enum_opt = None, trim = False, maxlength = None, validate = None\<rparr>"

subsection \<open>JavaScript strings\<close>

text \<open>The white space and line terminators that \<^verbatim>\<open>String.prototype.trim\<close> strips, each as
  its UTF-8 bytes: U+0009 to U+000D, U+0020, U+00A0, U+1680, U+2000 to U+200A, U+2028, U+2029,
  U+202F, U+205F, U+3000 and U+FEFF.\<close>

definition whiteSpace :: "string list" where
  "whiteSpace =
     [[CHR 0x09], [CHR 0x0A], [CHR 0x0B], [CHR 0x0C], [CHR 0x0D], [CHR 0x20],
      [CHR 0xC2, CHR 0xA0], [CHR 0xE1, CHR 0x9A, CHR 0x80],
      [CHR 0xE2, CHR 0x80, CHR 0x80], [CHR 0xE2, CHR 0x80, CHR 0x81],
      [CHR 0xE2, CHR 0x80, CHR 0x82], [CHR 0xE2, CHR 0x80, CHR 0x83],
      [CHR 0xE2, CHR 0x80, CHR 0x84], [CHR 0xE2, CHR 0x80, CHR 0x85],
      [CHR 0xE2, CHR 0x80, CHR 0x86], [CHR 0xE2, CHR 0x80, CHR 0x87],
      [CHR 0xE2, CHR 0x80, CHR 0x88], [CHR 0xE2, CHR 0x80, CHR 0x89],
      [CHR 0xE2, CHR 0x80, CHR 0x8A], [CHR 0xE2, CHR 0x80, CHR 0xA8],
      [CHR 0xE2, CHR 0x80, CHR 0xA9], [CHR 0xE2, CHR 0x80, CHR 0xAF],
      [CHR 0xE2, CHR 0x81, CHR 0x9F], [CHR 0xE3, CHR 0x80, CHR 0x80],
      [CHR 0xEF, CHR 0xBB, CHR 0xBF]]"

text \<open>The rest of a string after a given prefix, when it starts with it.\<close>

fun stripPrefix :: "string \<Rightarrow> string \<Rightarrow> string option" where
  "stripPrefix [] s = Some s"
| "stripPrefix (x # xs) [] = None"
| "stripPrefix (x # xs) (c # cs) = (if x = c then stripPrefix xs cs else None)"

text \<open>The rest of a string after the first of the given prefixes that it starts with.\<close>

fun stripAny :: "string list \<Rightarrow> string \<Rightarrow> string option" where
  "stripAny [] s = None"
| "stripAny (w # ws) s = (case stripPrefix w s of Some r \<Rightarrow> Some r | None \<Rightarrow> stripAny ws s)"

text \<open>Stripping the given prefixes for as long as one is there. The test on the lengths
  holds for every prefix that is not empty, so for every entry of \<^term>\<open>whiteSpace\<close>.\<close>

function stripAll :: "string list \<Rightarrow> string \<Rightarrow> string" where
  "stripAll ws s =
     (case stripAny ws s of
        None \<Rightarrow> s
      | Some r \<Rightarrow> if length r < length s then stripAll ws r else s)"
  by pat_completeness auto
termination
  by (relation "measure (\<lambda>(ws, s). length s)") auto

declare stripAll.simps [simp del]

text \<open>\<^verbatim>\<open>String.prototype.trim\<close>: the white space is stripped from the start, then from the
  end (on the reversed bytes, where a sequence of \<^term>\<open>whiteSpace\<close> reads backwards).\<close>

definition trim_string :: "string \<Rightarrow> string" where
  "trim_string s = rev (stripAll (map rev whiteSpace) (rev (stripAll whiteSpace s)))"

text \<open>The \<^verbatim>\<open>length\<close> of a JavaScript string counts UTF-16 code units: one for every code
  point (every byte that is not a continuation byte \<^verbatim>\<open>10xxxxxx\<close>) and one more for a code
  point beyond U+FFFF (a lead byte \<^verbatim>\<open>1111xxxx\<close> of a four-byte sequence).\<close>

definition js_length :: "string \<Rightarrow> nat" where
  "js_length s =
     length (filter (\<lambda>c. \<not> (digit7 c \<and> \<not> digit6 c)) s)
     + length (filter (\<lambda>c. digit7 c \<and> digit6 c \<and> digit5 c \<and> digit4 c) s)"

subsection \<open>Validators\<close>

type_synonym 'v validator = "error_kind \<times> string option \<times> ('v \<Rightarrow> bool)"

text \<open>Validators of one path run in order and stop at the first that fails.\<close>

fun runValidators :: "string \<Rightarrow> 'v validator list \<Rightarrow> 'v \<Rightarrow> validator_error list" where
  "runValidators path [] v = []"
| "runValidators path ((kind, msg, ok) # vs) v =
     (if ok v then runValidators path vs v else [ValidatorError path kind msg])"

text \<open>\<^verbatim>\<open>doValidate\<close>: the required validator is first and is the only one that sees an
  absent value; \<open>checkRequired\<close> is the schema type's test of a present value.\<close>

definition doValidate ::
  "('v \<Rightarrow> bool) \<Rightarrow> 'v validator list \<Rightarrow> 'v SchemaTypeOptions \<Rightarrow> string \<Rightarrow> 'v option
     \<Rightarrow> validator_error list" where
  "doValidate checkRequired validators opts path val =
     (case val of
        None \<Rightarrow>
          if fst (required opts) then [ValidatorError path KRequired (snd (required opts))]
          else []
      | Some v \<Rightarrow>
          runValidators path
            ((if fst (required opts) then [(KRequired, snd (required opts), checkRequired)]
              else []) @ validators) v)"

definition minValidator :: "real SchemaTypeOptions \<Rightarrow> real validator list" where
  "minValidator opts = (case min_opt opts of None \<Rightarrow> [] | Some m \<Rightarrow> [(KMin, None, \<lambda>v. m \<le> v)])"

definition enumValidator :: "string SchemaTypeOptions \<Rightarrow> string validator list" where
  "enumValidator opts =
     (case enum_opt opts of None \<Rightarrow> [] | Some vals \<Rightarrow> [(KEnum, None, \<lambda>v. v \<in> set vals)])"

definition maxlengthValidator :: "string SchemaTypeOptions \<Rightarrow> string validator list" where
  "maxlengthValidator opts =
     (case maxlength opts of
        None \<Rightarrow> []
      | Some n \<Rightarrow> [(KMaxlength, None, \<lambda>v. js_length v \<le> n)])"

definition customValidator :: "'v SchemaTypeOptions \<Rightarrow> 'v validator list" where
  "customValidator opts =
     (case validate opts of None \<Rightarrow> [] | Some (ok, msg) \<Rightarrow> [(KUserDefined, Some msg, ok)])"

text \<open>\<^verbatim>\<open>type: Number\<close>: any present number passes \<^verbatim>\<open>required\<close>.\<close>

definition SchemaNumber_doValidate ::
  "real SchemaTypeOptions \<Rightarrow> string \<Rightarrow> real option \<Rightarrow> validator_error list" where
  "SchemaNumber_doValidate opts =
     doValidate (\<lambda>v. True) (minValidator opts @ customValidator opts) opts"

text \<open>\<^verbatim>\<open>type: String\<close>: the empty string does not pass \<^verbatim>\<open>required\<close>.\<close>

definition SchemaString_doValidate ::
  "string SchemaTypeOptions \<Rightarrow> string \<Rightarrow> string option \<Rightarrow> validator_error list" where
  "SchemaString_doValidate opts =
     doValidate (\<lambda>v. v \<noteq> [])
       (enumValidator opts @ maxlengthValidator opts @ customValidator opts) opts"

text \<open>\<^verbatim>\<open>type: [String]\<close>: any array, also the empty one, passes \<^verbatim>\<open>required\<close>.\<close>

definition SchemaArray_doValidate ::
  "string list SchemaTypeOptions \<Rightarrow> string \<Rightarrow> string list option \<Rightarrow> validator_error list" where
  "SchemaArray_doValidate opts = doValidate (\<lambda>v. True) (customValidator opts) opts"

text \<open>A path whose type is another schema: \<^verbatim>\<open>required\<close> on the path, then the
  subdocument's own paths under the prefix \<^verbatim>\<open>path.\<close>.\<close>

definition Subdocument_doValidate ::
  "(string \<Rightarrow> 'd \<Rightarrow> validator_error list) \<Rightarrow> 'd SchemaTypeOptions \<Rightarrow> string \<Rightarrow> 'd option
     \<Rightarrow> validator_error list" where
  "Subdocument_doValidate sub opts path val =
     doValidate (\<lambda>v. True) [] opts path val
     @ (case val of None \<Rightarrow> [] | Some d \<Rightarrow> sub (path @ ''.'') d)"

text \<open>Defaults fill an absent value. An array path has the implicit default \<^verbatim>\<open>[]\<close>.\<close>

definition applyDefault :: "'v SchemaTypeOptions \<Rightarrow> 'v option \<Rightarrow> 'v option" where
  "applyDefault opts val = (case val of None \<Rightarrow> default_opt opts | Some v \<Rightarrow> Some v)"

definition SchemaArray_applyDefault ::
  "string list SchemaTypeOptions \<Rightarrow> string list option \<Rightarrow> string list option" where
  "SchemaArray_applyDefault opts val =
     (case val of
        None \<Rightarrow> (case default_opt opts of None \<Rightarrow> Some [] | Some d \<Rightarrow> Some d)
      | Some v \<Rightarrow> Some v)"

text \<open>The \<^verbatim>\<open>trim\<close> setter of a String path.\<close>

definition SchemaString_applySetters ::
  "string SchemaTypeOptions \<Rightarrow> string option \<Rightarrow> string option" where
  "SchemaString_applySetters opts val = (if trim opts then map_option trim_string val else val)"

text \<open>\<^verbatim>\<open>timestamps: true\<close>: a stored document carries \<^verbatim>\<open>createdAt\<close> and
  \<^verbatim>\<open>updatedAt\<close> beside the schema's paths.\<close>

record 'd timestamps =
  doc :: 'd
  createdAt :: int
  updatedAt :: int

section \<open>Guide.model.ts\<close>

record GuidePricing =
  halfDay :: "real option"
  fullDay :: "real option"
  multiDay :: "real option"
  workshop :: "real option"

record GuideLocation =
  guide_district :: "string option"
  guide_state :: "string option"

text \<open>\<^verbatim>\<open>IGuide\<close> without the timestamps: the shape of \<^verbatim>\<open>CreateGuideInput\<close>, of
  \<^verbatim>\<open>UpdateGuideInput\<close> (every key optional) and of the document's own paths.\<close>

record Guide =
  name :: "string option"
  bio :: "string option"
  specializations :: "string list option"
  languages :: "string list option"
  experience :: "string option"
  guide_location :: "GuideLocation option"
  guide_pricing :: "GuidePricing option"
  certifications :: "string list option"
  availability :: "string option"

subsection \<open>locationSchema\<close>

definition guide_locationSchema_district :: "string SchemaTypeOptions" where
  "guide_locationSchema_district = SchemaType\<lparr>required := (True, None)\<rparr>"

definition guide_locationSchema_state :: "string SchemaTypeOptions" where
  "guide_locationSchema_state =
     SchemaType\<lparr>required := (True, None), default_opt := Some ''Jharkhand''\<rparr>"

definition guide_locationSchema_init :: "GuideLocation \<Rightarrow> GuideLocation" where
  "guide_locationSchema_init l =
     \<lparr>guide_district = applyDefault guide_locationSchema_district
        (SchemaString_applySetters guide_locationSchema_district (guide_district l)),
      guide_state = applyDefault guide_locationSchema_state
        (SchemaString_applySetters guide_locationSchema_state (guide_state l))\<rparr>"

definition guide_locationSchema_validate :: "string \<Rightarrow> GuideLocation \<Rightarrow> validator_error list" where
  "guide_locationSchema_validate prefix l =
     SchemaString_doValidate guide_locationSchema_district (prefix @ ''district'') (guide_district l)
     @ SchemaString_doValidate guide_locationSchema_state (prefix @ ''state'') (guide_state l)"

subsection \<open>pricingSchema\<close>

definition guide_pricingSchema_halfDay :: "real SchemaTypeOptions" where
  "guide_pricingSchema_halfDay = SchemaType\<lparr>required := (True, None), min_opt := Some 0\<rparr>"

definition guide_pricingSchema_fullDay :: "real SchemaTypeOptions" where
  "guide_pricingSchema_fullDay = SchemaType\<lparr>required := (True, None), min_opt := Some 0\<rparr>"

definition guide_pricingSchema_multiDay :: "real SchemaTypeOptions" where
  "guide_pricingSchema_multiDay = SchemaType\<lparr>required := (False, None)\<rparr>"

definition guide_pricingSchema_workshop :: "real SchemaTypeOptions" where
  "guide_pricingSchema_workshop = SchemaType\<lparr>required := (False, None)\<rparr>"

definition guide_pricingSchema_init :: "GuidePricing \<Rightarrow> GuidePricing" where
  "guide_pricingSchema_init p =
     \<lparr>halfDay = applyDefault guide_pricingSchema_halfDay (halfDay p),
      fullDay = applyDefault guide_pricingSchema_fullDay (fullDay p),
      multiDay = applyDefault guide_pricingSchema_multiDay (multiDay p),
      workshop = applyDefault guide_pricingSchema_workshop (workshop p)\<rparr>"

definition guide_pricingSchema_validate :: "string \<Rightarrow> GuidePricing \<Rightarrow> validator_error list" where
  "guide_pricingSchema_validate prefix p =
     SchemaNumber_doValidate guide_pricingSchema_halfDay (prefix @ ''halfDay'') (halfDay p)
     @ SchemaNumber_doValidate guide_pricingSchema_fullDay (prefix @ ''fullDay'') (fullDay p)
     @ SchemaNumber_doValidate guide_pricingSchema_multiDay (prefix @ ''multiDay'') (multiDay p)
     @ SchemaNumber_doValidate guide_pricingSchema_workshop (prefix @ ''workshop'') (workshop p)"

subsection \<open>guideSchema\<close>

definition guideSchema_name :: "string SchemaTypeOptions" where
  "guideSchema_name =
     SchemaType\<lparr>required := (True, Some ''Name is required''), trim := True,
       maxlength := Some 100\<rparr>"

definition guideSchema_bio :: "string SchemaTypeOptions" where
  "guideSchema_bio = SchemaType\<lparr>required := (True, Some ''Bio is required''), trim := True\<rparr>"

definition guideSchema_specializations :: "string list SchemaTypeOptions" where
  "guideSchema_specializations =
     SchemaType\<lparr>required := (True, None),
       validate := Some (\<lambda>v. length v > 0, ''At least one specialization is required'')\<rparr>"

definition guideSchema_languages :: "string list SchemaTypeOptions" where
  "guideSchema_languages =
     SchemaType\<lparr>required := (True, None),
       validate := Some (\<lambda>v. length v > 0, ''At least one language is required'')\<rparr>"

definition guideSchema_experience :: "string SchemaTypeOptions" where
  "guideSchema_experience = SchemaType\<lparr>required := (True, None)\<rparr>"

definition guideSchema_location :: "GuideLocation SchemaTypeOptions" where
  "guideSchema_location = SchemaType\<lparr>required := (True, None)\<rparr>"

definition guideSchema_pricing :: "GuidePricing SchemaTypeOptions" where
  "guideSchema_pricing = SchemaType\<lparr>required := (True, None)\<rparr>"

definition guideSchema_certifications :: "string list SchemaTypeOptions" where
  "guideSchema_certifications = SchemaType\<lparr>required := (False, None)\<rparr>"

definition guideSchema_availability :: "string SchemaTypeOptions" where
  "guideSchema_availability =
     SchemaType\<lparr>enum_opt := Some [''available'', ''busy'', ''unavailable''],
       default_opt := Some ''available''\<rparr>"

text \<open>Setting values on a document runs the setters; a supplied subdocument is built by its
  own schema, defaults included.\<close>

definition guideSchema_applySetters :: "Guide \<Rightarrow> Guide" where
  "guideSchema_applySetters g =
     \<lparr>name = SchemaString_applySetters guideSchema_name (name g),
      bio = SchemaString_applySetters guideSchema_bio (bio g),
      specializations = specializations g,
      languages = languages g,
      experience = SchemaString_applySetters guideSchema_experience (experience g),
      guide_location = map_option guide_locationSchema_init (guide_location g),
      guide_pricing = map_option guide_pricingSchema_init (guide_pricing g),
      certifications = certifications g,
      availability = SchemaString_applySetters guideSchema_availability (availability g)\<rparr>"

text \<open>A new document takes the default of every path left absent.\<close>

definition guideSchema_applyDefaults :: "Guide \<Rightarrow> Guide" where
  "guideSchema_applyDefaults g =
     \<lparr>name = applyDefault guideSchema_name (name g),
      bio = applyDefault guideSchema_bio (bio g),
      specializations = SchemaArray_applyDefault guideSchema_specializations (specializations g),
      languages = SchemaArray_applyDefault guideSchema_languages (languages g),
      experience = applyDefault guideSchema_experience (experience g),
      guide_location = applyDefault guideSchema_location (guide_location g),
      guide_pricing = applyDefault guideSchema_pricing (guide_pricing g),
      certifications = SchemaArray_applyDefault guideSchema_certifications (certifications g),
      availability = applyDefault guideSchema_availability (availability g)\<rparr>"

text \<open>The paths of the schema in declaration order: whether the document has a value at the
  path, and the errors of the path's validators.\<close>

definition guideSchema_paths :: "Guide \<Rightarrow> (bool \<times> validator_error list) list" where
  "guideSchema_paths g =
     [(name g \<noteq> None, SchemaString_doValidate guideSchema_name ''name'' (name g)),
      (bio g \<noteq> None, SchemaString_doValidate guideSchema_bio ''bio'' (bio g)),
      (specializations g \<noteq> None,
         SchemaArray_doValidate guideSchema_specializations ''specializations'' (specializations g)),
      (languages g \<noteq> None,
         SchemaArray_doValidate guideSchema_languages ''languages'' (languages g)),
      (experience g \<noteq> None,
         SchemaString_doValidate guideSchema_experience ''experience'' (experience g)),
      (guide_location g \<noteq> None,
         Subdocument_doValidate guide_locationSchema_validate guideSchema_location ''location''
           (guide_location g)),
      (guide_pricing g \<noteq> None,
         Subdocument_doValidate guide_pricingSchema_validate guideSchema_pricing ''pricing''
           (guide_pricing g)),
      (certifications g \<noteq> None,
         SchemaArray_doValidate guideSchema_certifications ''certifications'' (certifications g)),
      (availability g \<noteq> None,
         SchemaString_doValidate guideSchema_availability ''availability'' (availability g))]"

text \<open>Validation of a whole document, and of the supplied paths only.\<close>

definition guideSchema_validate :: "Guide \<Rightarrow> validator_error list" where
  "guideSchema_validate g = concat (map snd (guideSchema_paths g))"

definition guideSchema_validateSupplied :: "Guide \<Rightarrow> validator_error list" where
  "guideSchema_validateSupplied g = concat (map snd (filter fst (guideSchema_paths g)))"

text \<open>\<^verbatim>\<open>GuideModel\<close>, creating a document: setters, defaults, validation of every path, and
  both timestamps set to the time of the write.\<close>

definition guide_create :: "int \<Rightarrow> Guide \<Rightarrow> validator_error list + Guide timestamps" where
  "guide_create now input =
     (let g = guideSchema_applyDefaults (guideSchema_applySetters input);
          errs = guideSchema_validate g
      in if errs = [] then Inr \<lparr>doc = g, createdAt = now, updatedAt = now\<rparr> else Inl errs)"

section \<open>Homestay.model.ts\<close>

record Coordinates =
  lat :: "real option"
  lng :: "real option"

record HomestayLocation =
  address :: "string option"
  homestay_district :: "string option"
  homestay_state :: "string option"
  coordinates :: "Coordinates option"

record HomestayPricing =
  basePrice :: "real option"
  cleaningFee :: "real option"
  weekendPrice :: "real option"

record HomestayCapacity =
  guests :: "real option"
  bedrooms :: "real option"
  beds :: "real option"
  bathrooms :: "real option"

text \<open>\<^verbatim>\<open>CreateHomestayInput\<close> is \<^verbatim>\<open>IHomestay\<close> without \<^verbatim>\<open>status\<close> and the timestamps.\<close>

record CreateHomestayInput =
  title :: "string option"
  description :: "string option"
  propertyType :: "string option"
  homestay_location :: "HomestayLocation option"
  homestay_pricing :: "HomestayPricing option"
  capacity :: "HomestayCapacity option"
  amenities :: "string list option"
  houseRules :: "string list option"
  images :: "string list option"

text \<open>\<^verbatim>\<open>IHomestay\<close> without the timestamps: the shape of \<^verbatim>\<open>UpdateHomestayInput\<close> (every
  key optional) and of the document's own paths.\<close>

record Homestay = CreateHomestayInput +
  status :: "string option"

subsection \<open>coordinatesSchema\<close>

definition coordinatesSchema_lat :: "real SchemaTypeOptions" where
  "coordinatesSchema_lat = SchemaType\<lparr>required := (True, None)\<rparr>"

definition coordinatesSchema_lng :: "real SchemaTypeOptions" where
  "coordinatesSchema_lng = SchemaType\<lparr>required := (True, None)\<rparr>"

definition coordinatesSchema_init :: "Coordinates \<Rightarrow> Coordinates" where
  "coordinatesSchema_init c =
     \<lparr>lat = applyDefault coordinatesSchema_lat (lat c),
      lng = applyDefault coordinatesSchema_lng (lng c)\<rparr>"

definition coordinatesSchema_validate :: "string \<Rightarrow> Coordinates \<Rightarrow> validator_error list" where
  "coordinatesSchema_validate prefix c =
     SchemaNumber_doValidate coordinatesSchema_lat (prefix @ ''lat'') (lat c)
     @ SchemaNumber_doValidate coordinatesSchema_lng (prefix @ ''lng'') (lng c)"

subsection \<open>locationSchema\<close>

definition homestay_locationSchema_address :: "string SchemaTypeOptions" where
  "homestay_locationSchema_address = SchemaType\<lparr>required := (True, None)\<rparr>"

definition homestay_locationSchema_district :: "string SchemaTypeOptions" where
  "homestay_locationSchema_district = SchemaType\<lparr>required := (True, None)\<rparr>"

definition homestay_locationSchema_state :: "string SchemaTypeOptions" where
  "homestay_locationSchema_state =
     SchemaType\<lparr>required := (True, None), default_opt := Some ''Jharkhand''\<rparr>"

definition homestay_locationSchema_coordinates :: "Coordinates SchemaTypeOptions" where
  "homestay_locationSchema_coordinates = SchemaType\<lparr>required := (False, None)\<rparr>"

definition homestay_locationSchema_init :: "HomestayLocation \<Rightarrow> HomestayLocation" where
  "homestay_locationSchema_init l =
     \<lparr>address = applyDefault homestay_locationSchema_address
        (SchemaString_applySetters homestay_locationSchema_address (address l)),
      homestay_district = applyDefault homestay_locationSchema_district
        (SchemaString_applySetters homestay_locationSchema_district (homestay_district l)),
      homestay_state = applyDefault homestay_locationSchema_state
        (SchemaString_applySetters homestay_locationSchema_state (homestay_state l)),
      coordinates = applyDefault homestay_locationSchema_coordinates
        (map_option coordinatesSchema_init (coordinates l))\<rparr>"

definition homestay_locationSchema_validate ::
  "string \<Rightarrow> HomestayLocation \<Rightarrow> validator_error list" where
  "homestay_locationSchema_validate prefix l =
     SchemaString_doValidate homestay_locationSchema_address (prefix @ ''address'') (address l)
     @ SchemaString_doValidate homestay_locationSchema_district (prefix @ ''district'')
         (homestay_district l)
     @ SchemaString_doValidate homestay_locationSchema_state (prefix @ ''state'')
         (homestay_state l)
     @ Subdocument_doValidate coordinatesSchema_validate homestay_locationSchema_coordinates
         (prefix @ ''coordinates'') (coordinates l)"

subsection \<open>pricingSchema\<close>

definition homestay_pricingSchema_basePrice :: "real SchemaTypeOptions" where
  "homestay_pricingSchema_basePrice = SchemaType\<lparr>required := (True, None), min_opt := Some 100\<rparr>"

definition homestay_pricingSchema_cleaningFee :: "real SchemaTypeOptions" where
  "homestay_pricingSchema_cleaningFee = SchemaType\<lparr>required := (False, None)\<rparr>"

definition homestay_pricingSchema_weekendPrice :: "real SchemaTypeOptions" where
  "homestay_pricingSchema_weekendPrice = SchemaType\<lparr>required := (False, None)\<rparr>"

definition homestay_pricingSchema_init :: "HomestayPricing \<Rightarrow> HomestayPricing" where
  "homestay_pricingSchema_init p =
     \<lparr>basePrice = applyDefault homestay_pricingSchema_basePrice (basePrice p),
      cleaningFee = applyDefault homestay_pricingSchema_cleaningFee (cleaningFee p),
      weekendPrice = applyDefault homestay_pricingSchema_weekendPrice (weekendPrice p)\<rparr>"

definition homestay_pricingSchema_validate ::
  "string \<Rightarrow> HomestayPricing \<Rightarrow> validator_error list" where
  "homestay_pricingSchema_validate prefix p =
     SchemaNumber_doValidate homestay_pricingSchema_basePrice (prefix @ ''basePrice'') (basePrice p)
     @ SchemaNumber_doValidate homestay_pricingSchema_cleaningFee (prefix @ ''cleaningFee'')
         (cleaningFee p)
     @ SchemaNumber_doValidate homestay_pricingSchema_weekendPrice (prefix @ ''weekendPrice'')
         (weekendPrice p)"

subsection \<open>capacitySchema\<close>

definition capacitySchema_guests :: "real SchemaTypeOptions" where
  "capacitySchema_guests = SchemaType\<lparr>required := (True, None), min_opt := Some 1\<rparr>"

definition capacitySchema_bedrooms :: "real SchemaTypeOptions" where
  "capacitySchema_bedrooms = SchemaType\<lparr>required := (True, None), min_opt := Some 0\<rparr>"

definition capacitySchema_beds :: "real SchemaTypeOptions" where
  "capacitySchema_beds = SchemaType\<lparr>required := (True, None), min_opt := Some 1\<rparr>"

definition capacitySchema_bathrooms :: "real SchemaTypeOptions" where
  "capacitySchema_bathrooms = SchemaType\<lparr>required := (True, None), min_opt := Some 0\<rparr>"

definition capacitySchema_init :: "HomestayCapacity \<Rightarrow> HomestayCapacity" where
  "capacitySchema_init c =
     \<lparr>guests = applyDefault capacitySchema_guests (guests c),
      bedrooms = applyDefault capacitySchema_bedrooms (bedrooms c),
      beds = applyDefault capacitySchema_beds (beds c),
      bathrooms = applyDefault capacitySchema_bathrooms (bathrooms c)\<rparr>"

definition capacitySchema_validate :: "string \<Rightarrow> HomestayCapacity \<Rightarrow> validator_error list" where
  "capacitySchema_validate prefix c =
     SchemaNumber_doValidate capacitySchema_guests (prefix @ ''guests'') (guests c)
     @ SchemaNumber_doValidate capacitySchema_bedrooms (prefix @ ''bedrooms'') (bedrooms c)
     @ SchemaNumber_doValidate capacitySchema_beds (prefix @ ''beds'') (beds c)
     @ SchemaNumber_doValidate capacitySchema_bathrooms (prefix @ ''bathrooms'') (bathrooms c)"

subsection \<open>homestaySchema\<close>

definition homestaySchema_title :: "string SchemaTypeOptions" where
  "homestaySchema_title =
     SchemaType\<lparr>required := (True, Some ''Title is required''), trim := True,
       maxlength := Some 200\<rparr>"

definition homestaySchema_description :: "string SchemaTypeOptions" where
  "homestaySchema_description =
     SchemaType\<lparr>required := (True, Some ''Description is required''), trim := True\<rparr>"

definition homestaySchema_propertyType :: "string SchemaTypeOptions" where
  "homestaySchema_propertyType =
     SchemaType\<lparr>enum_opt := Some [''entire'', ''private'', ''shared''],
       required := (True, None), default_opt := Some ''entire''\<rparr>"

definition homestaySchema_location :: "HomestayLocation SchemaTypeOptions" where
  "homestaySchema_location = SchemaType\<lparr>required := (True, None)\<rparr>"

definition homestaySchema_pricing :: "HomestayPricing SchemaTypeOptions" where
  "homestaySchema_pricing = SchemaType\<lparr>required := (True, None)\<rparr>"

definition homestaySchema_capacity :: "HomestayCapacity SchemaTypeOptions" where
  "homestaySchema_capacity = SchemaType\<lparr>required := (True, None)\<rparr>"

definition homestaySchema_amenities :: "string list SchemaTypeOptions" where
  "homestaySchema_amenities = SchemaType\<lparr>default_opt := Some []\<rparr>"

definition homestaySchema_houseRules :: "string list SchemaTypeOptions" where
  "homestaySchema_houseRules = SchemaType\<lparr>required := (False, None)\<rparr>"

definition homestaySchema_images :: "string list SchemaTypeOptions" where
  "homestaySchema_images = SchemaType\<lparr>default_opt := Some []\<rparr>"

definition homestaySchema_status :: "string SchemaTypeOptions" where
  "homestaySchema_status =
     SchemaType\<lparr>enum_opt := Some [''active'', ''inactive'', ''pending''],
       default_opt := Some ''active''\<rparr>"

definition homestaySchema_applySetters :: "Homestay \<Rightarrow> Homestay" where
  "homestaySchema_applySetters h =
     \<lparr>title = SchemaString_applySetters homestaySchema_title (title h),
      description = SchemaString_applySetters homestaySchema_description (description h),
      propertyType = SchemaString_applySetters homestaySchema_propertyType (propertyType h),
      homestay_location = map_option homestay_locationSchema_init (homestay_location h),
      homestay_pricing = map_option homestay_pricingSchema_init (homestay_pricing h),
      capacity = map_option capacitySchema_init (capacity h),
      amenities = amenities h,
      houseRules = houseRules h,
      images = images h,
      status = SchemaString_applySetters homestaySchema_status (status h)\<rparr>"

definition homestaySchema_applyDefaults :: "Homestay \<Rightarrow> Homestay" where
  "homestaySchema_applyDefaults h =
     \<lparr>title = applyDefault homestaySchema_title (title h),
      description = applyDefault homestaySchema_description (description h),
      propertyType = applyDefault homestaySchema_propertyType (propertyType h),
      homestay_location = applyDefault homestaySchema_location (homestay_location h),
      homestay_pricing = applyDefault homestaySchema_pricing (homestay_pricing h),
      capacity = applyDefault homestaySchema_capacity (capacity h),
      amenities = SchemaArray_applyDefault homestaySchema_amenities (amenities h),
      houseRules = SchemaArray_applyDefault homestaySchema_houseRules (houseRules h),
      images = SchemaArray_applyDefault homestaySchema_images (images h),
      status = applyDefault homestaySchema_status (status h)\<rparr>"

definition homestaySchema_paths :: "Homestay \<Rightarrow> (bool \<times> validator_error list) list" where
  "homestaySchema_paths h =
     [(title h \<noteq> None, SchemaString_doValidate homestaySchema_title ''title'' (title h)),
      (description h \<noteq> None,
         SchemaString_doValidate homestaySchema_description ''description'' (description h)),
      (propertyType h \<noteq> None,
         SchemaString_doValidate homestaySchema_propertyType ''propertyType'' (propertyType h)),
      (homestay_location h \<noteq> None,
         Subdocument_doValidate homestay_locationSchema_validate homestaySchema_location
           ''location'' (homestay_location h)),
      (homestay_pricing h \<noteq> None,
         Subdocument_doValidate homestay_pricingSchema_validate homestaySchema_pricing
           ''pricing'' (homestay_pricing h)),
      (capacity h \<noteq> None,
         Subdocument_doValidate capacitySchema_validate homestaySchema_capacity ''capacity''
           (capacity h)),
      (amenities h \<noteq> None,
         SchemaArray_doValidate homestaySchema_amenities ''amenities'' (amenities h)),
      (houseRules h \<noteq> None,
         SchemaArray_doValidate homestaySchema_houseRules ''houseRules'' (houseRules h)),
      (images h \<noteq> None, SchemaArray_doValidate homestaySchema_images ''images'' (images h)),
      (status h \<noteq> None, SchemaString_doValidate homestaySchema_status ''status'' (status h))]"

definition homestaySchema_validate :: "Homestay \<Rightarrow> validator_error list" where
  "homestaySchema_validate h = concat (map snd (homestaySchema_paths h))"

definition homestaySchema_validateSupplied :: "Homestay \<Rightarrow> validator_error list" where
  "homestaySchema_validateSupplied h = concat (map snd (filter fst (homestaySchema_paths h)))"

text \<open>A creation input as a document to build: it has no \<^verbatim>\<open>status\<close> key.\<close>

definition homestay_of_input :: "CreateHomestayInput \<Rightarrow> Homestay" where
  "homestay_of_input c =
     \<lparr>title = title c, description = description c, propertyType = propertyType c,
      homestay_location = homestay_location c, homestay_pricing = homestay_pricing c,
      capacity = capacity c, amenities = amenities c, houseRules = houseRules c,
      images = images c, status = None\<rparr>"

text \<open>\<^verbatim>\<open>HomestayModel\<close>, creating a document from a \<^verbatim>\<open>CreateHomestayInput\<close>.\<close>

definition homestay_create ::
  "int \<Rightarrow> CreateHomestayInput \<Rightarrow> validator_error list + Homestay timestamps" where
  "homestay_create now input =
     (let h = homestaySchema_applyDefaults (homestaySchema_applySetters (homestay_of_input input));
          errs = homestaySchema_validate h
      in if errs = [] then Inr \<lparr>doc = h, createdAt = now, updatedAt = now\<rparr> else Inl errs)"

text \<open>The \<^verbatim>\<open>Omit\<close> of \<^verbatim>\<open>CreateHomestayInput\<close> is a compile-time type: at run time
  \<^verbatim>\<open>HomestayModel\<close> builds a document from whatever object it is given, and a \<^verbatim>\<open>status\<close>
  key in it reaches the schema. Creating a document from any object of the document's shape;
  \<^term>\<open>homestay_create\<close> is the case of an object without the key.\<close>

definition homestay_create_object ::
  "int \<Rightarrow> Homestay \<Rightarrow> validator_error list + Homestay timestamps" where
  "homestay_create_object now obj =
     (let h = homestaySchema_applyDefaults (homestaySchema_applySetters obj);
          errs = homestaySchema_validate h
      in if errs = [] then Inr \<lparr>doc = h, createdAt = now, updatedAt = now\<rparr> else Inl errs)"

section \<open>Updates and the collections\<close>

text \<open>No caller of \<^verbatim>\<open>GuideModel\<close> or \<^verbatim>\<open>HomestayModel\<close> is among the source files: the
  update operations and the store behind the models are taken from the spec, each under the
  sentence it follows.\<close>

text \<open>Modelled from the spec: how a partial input treats one key, which is not in the source.
  "Only supplied fields are validated and replaced."\<close>

definition supplied_or :: "'a option \<Rightarrow> 'a option \<Rightarrow> 'a option" where
  "supplied_or new old = (case new of None \<Rightarrow> old | Some v \<Rightarrow> Some v)"

text \<open>Modelled from the spec: the replacement step of the Guide update, which is not in the
  source. "Partial update input: a creation-shaped input where every field is optional,
  applied field-by-field to an existing record."\<close>

definition guide_merge :: "Guide \<Rightarrow> Guide \<Rightarrow> Guide" where
  "guide_merge u g =
     \<lparr>name = supplied_or (name u) (name g),
      bio = supplied_or (bio u) (bio g),
      specializations = supplied_or (specializations u) (specializations g),
      languages = supplied_or (languages u) (languages g),
      experience = supplied_or (experience u) (experience g),
      guide_location = supplied_or (guide_location u) (guide_location g),
      guide_pricing = supplied_or (guide_pricing u) (guide_pricing g),
      certifications = supplied_or (certifications u) (certifications g),
      availability = supplied_or (availability u) (availability g)\<rparr>"

text \<open>Modelled from the spec: the update operation of the Guide store, which is not in the
  source. "Update operation accepts a partial input; only supplied fields are validated and
  replaced; updatedAt is refreshed; createdAt is immutable." The input has the shape of
  \<^verbatim>\<open>UpdateGuideInput\<close>.\<close>

definition guide_update ::
  "int \<Rightarrow> Guide \<Rightarrow> Guide timestamps \<Rightarrow> validator_error list + Guide timestamps" where
  "guide_update now input old =
     (let u = guideSchema_applySetters input;
          errs = guideSchema_validateSupplied u
      in if errs = []
         then Inr \<lparr>doc = guide_merge u (doc old), createdAt = createdAt old, updatedAt = now\<rparr>
         else Inl errs)"

text \<open>Modelled from the spec: the replacement step of the Homestay update, which is not in
  the source. "Partial update input: a creation-shaped input where every field is optional,
  applied field-by-field to an existing record."\<close>

definition homestay_merge :: "Homestay \<Rightarrow> Homestay \<Rightarrow> Homestay" where
  "homestay_merge u h =
     \<lparr>title = supplied_or (title u) (title h),
      description = supplied_or (description u) (description h),
      propertyType = supplied_or (propertyType u) (propertyType h),
      homestay_location = supplied_or (homestay_location u) (homestay_location h),
      homestay_pricing = supplied_or (homestay_pricing u) (homestay_pricing h),
      capacity = supplied_or (capacity u) (capacity h),
      amenities = supplied_or (amenities u) (amenities h),
      houseRules = supplied_or (houseRules u) (houseRules h),
      images = supplied_or (images u) (images h),
      status = supplied_or (status u) (status h)\<rparr>"

text \<open>Modelled from the spec: the update operation of the Homestay store, which is not in the
  source. "Update accepts partial input with same per-field validation; status transitions
  are unconstrained." The timestamps are kept as for a Guide. The input has the shape of
  \<^verbatim>\<open>UpdateHomestayInput\<close>.\<close>

definition homestay_update ::
  "int \<Rightarrow> Homestay \<Rightarrow> Homestay timestamps \<Rightarrow> validator_error list + Homestay timestamps" where
  "homestay_update now input old =
     (let u = homestaySchema_applySetters input;
          errs = homestaySchema_validateSupplied u
      in if errs = []
         then Inr \<lparr>doc = homestay_merge u (doc old), createdAt = createdAt old, updatedAt = now\<rparr>
         else Inl errs)"

text \<open>Modelled from the spec: the errors of a write to the store, which is not in the source.
  "All validation errors are reported synchronously to the caller at the point of
  create/update"; an update names its record by identifier, which may name none.\<close>

datatype store_error = ValidationError "validator_error list" | DocumentNotFound

text \<open>Modelled from the spec: the persistence store (a collaborator, not in the source). A
  collection is the list of its stored documents; the "opaque system-generated identifier" of
  a document is its position, and "updates preserve identity".\<close>

type_synonym 'd collection = "'d timestamps list"

text \<open>Modelled from the spec: persisting the outcome of a creation, which is not in the
  source. "No partial writes: a record either passes all applicable validations or is not
  persisted/updated."\<close>

definition collection_insert ::
  "(validator_error list + 'd timestamps) \<Rightarrow> 'd collection
     \<Rightarrow> (store_error + nat) \<times> 'd collection" where
  "collection_insert r c =
     (case r of
        Inl errs \<Rightarrow> (Inl (ValidationError errs), c)
      | Inr d \<Rightarrow> (Inr (length c), c @ [d]))"

text \<open>Modelled from the spec: persisting the outcome of an update of the document with a
  given identifier, which is not in the source. "No partial writes: a record either passes
  all applicable validations or is not persisted/updated."\<close>

definition collection_update ::
  "nat \<Rightarrow> ('d timestamps \<Rightarrow> validator_error list + 'd timestamps) \<Rightarrow> 'd collection
     \<Rightarrow> (store_error + nat) \<times> 'd collection" where
  "collection_update i f c =
     (if i < length c
      then (case f (c ! i) of
              Inl errs \<Rightarrow> (Inl (ValidationError errs), c)
            | Inr d \<Rightarrow> (Inr i, c[i := d]))
      else (Inl DocumentNotFound, c))"

text \<open>Modelled from the spec: the create operation of the Guide store on its collection,
  which is not in the source (the document it builds is \<^term>\<open>guide_create\<close>'s).\<close>

definition GuideModel_create ::
  "int \<Rightarrow> Guide \<Rightarrow> Guide collection \<Rightarrow> (store_error + nat) \<times> Guide collection" where
  "GuideModel_create now input c = collection_insert (guide_create now input) c"

text \<open>Modelled from the spec: the update operation of the Guide store on its collection,
  which is not in the source.\<close>

definition GuideModel_update ::
  "int \<Rightarrow> nat \<Rightarrow> Guide \<Rightarrow> Guide collection \<Rightarrow> (store_error + nat) \<times> Guide collection" where
  "GuideModel_update now i input c = collection_update i (guide_update now input) c"

text \<open>Modelled from the spec: the create operation of the Homestay store on its collection,
  which is not in the source (the document it builds is \<^term>\<open>homestay_create\<close>'s).\<close>

definition HomestayModel_create ::
  "int \<Rightarrow> CreateHomestayInput \<Rightarrow> Homestay collection
     \<Rightarrow> (store_error + nat) \<times> Homestay collection" where
  "HomestayModel_create now input c = collection_insert (homestay_create now input) c"

text \<open>Modelled from the spec: the create operation of the Homestay store on its collection
  for an object that may carry a \<^verbatim>\<open>status\<close> key, which is not in the source (the document
  it builds is \<^term>\<open>homestay_create_object\<close>'s).\<close>

definition HomestayModel_create_object ::
  "int \<Rightarrow> Homestay \<Rightarrow> Homestay collection \<Rightarrow> (store_error + nat) \<times> Homestay collection" where
  "HomestayModel_create_object now obj c = collection_insert (homestay_create_object now obj) c"

text \<open>Modelled from the spec: the update operation of the Homestay store on its collection,
  which is not in the source.\<close>

definition HomestayModel_update ::
  "int \<Rightarrow> nat \<Rightarrow> Homestay \<Rightarrow> Homestay collection
     \<Rightarrow> (store_error + nat) \<times> Homestay collection" where
  "HomestayModel_update now i input c = collection_update i (homestay_update now input) c"

text \<open>Modelled from the spec: a history of the guides collection, the writes issued against
  the store from empty ("created via a constructor input ...; mutated via partial-update
  input"; no deletion is specified). Each write carries the clock reading it is stamped
  with.\<close>

datatype guide_op = CreateGuide int Guide | UpdateGuide int nat Guide

fun guide_apply :: "Guide collection \<Rightarrow> guide_op \<Rightarrow> Guide collection" where
  "guide_apply c (CreateGuide now input) = snd (GuideModel_create now input c)"
| "guide_apply c (UpdateGuide now i input) = snd (GuideModel_update now i input c)"

definition guides_after :: "guide_op list \<Rightarrow> Guide collection" where
  "guides_after ops = foldl guide_apply [] ops"





section \<open>Indexes\<close>

text \<open>\<^verbatim>\<open>schema.index(fields)\<close> appends one index declaration to the schema's list; a field is
  indexed ascending (\<^verbatim>\<open>1\<close>) or as text (\<^verbatim>\<open>'text'\<close>). No path of either schema carries an
  index option of its own, so the declarations are all the secondary indexes.\<close>

datatype index_type = Ascending | Text

type_synonym index_fields = "(string \<times> index_type) list"

definition schema_index :: "index_fields \<Rightarrow> index_fields list \<Rightarrow> index_fields list" where
  "schema_index fs indexes = indexes @ [fs]"

definition guideSchema_indexes :: "index_fields list" where
  "guideSchema_indexes =
     (let s1 = schema_index [(''specializations'', Ascending)] [];
          s2 = schema_index [(''availability'', Ascending)] s1;
          s3 = schema_index [(''location.district'', Ascending)] s2;
          s4 = schema_index [(''name'', Text), (''bio'', Text)] s3
      in s4)"

definition homestaySchema_indexes :: "index_fields list" where
  "homestaySchema_indexes =
     (let s1 = schema_index [(''location.district'', Ascending)] [];
          s2 = schema_index [(''pricing.basePrice'', Ascending)] s1;
          s3 = schema_index [(''status'', Ascending)] s2;
          s4 = schema_index [(''title'', Text), (''description'', Text)] s3
      in s4)"

section \<open>Sample inputs\<close>

text \<open>A creation input for each model that leaves every defaulted key absent, and the partial
  update inputs that supply nothing.\<close>

definition sample_guide :: Guide where
  "sample_guide =
     \<lparr>name = Some '' Birsa Oraon'', bio = Some ''Forest trails around Netarhat'',
      specializations = Some [''trekking''], languages = Some [''Hindi'', ''Kurukh''],
      experience = Some ''5 years'',
      guide_location = Some \<lparr>guide_district = Some ''Latehar'', guide_state = None\<rparr>,
      guide_pricing =
        Some \<lparr>halfDay = Some 500, fullDay = Some 900, multiDay = None, workshop = None\<rparr>,
      certifications = None, availability = None\<rparr>"

definition sample_homestay :: CreateHomestayInput where
  "sample_homestay =
     \<lparr>title = Some ''Sal Grove Homestay'', description = Some ''Two rooms by the river '',
      propertyType = None,
      homestay_location =
        Some \<lparr>address = Some ''Main Road'', homestay_district = Some ''Ranchi'',
          homestay_state = None, coordinates = None\<rparr>,
      homestay_pricing =
        Some \<lparr>basePrice = Some 100, cleaningFee = None, weekendPrice = None\<rparr>,
      capacity =
        Some \<lparr>guests = Some 1, bedrooms = Some 0, beds = Some 1, bathrooms = Some 0\<rparr>,
      amenities = None, houseRules = None, images = None\<rparr>"

definition guide_no_changes :: Guide where
  "guide_no_changes =
     \<lparr>name = None, bio = None, specializations = None, languages = None, experience = None,
      guide_location = None, guide_pricing = None, certifications = None, availability = None\<rparr>"

definition homestay_no_changes :: Homestay where
  "homestay_no_changes =
     \<lparr>title = None, description = None, propertyType = None, homestay_location = None,
      homestay_pricing = None, capacity = None, amenities = None, houseRules = None,
      images = None, status = None\<rparr>"

text \<open>A collection path has entries when it is present and not empty.\<close>

definition has_entries :: "string list option \<Rightarrow> bool" where
  "has_entries val = (case val of None \<Rightarrow> False | Some xs \<Rightarrow> xs \<noteq> [])"

text \<open>A write is rejected with a given validator error when its result is a validation error
  that holds it and the collection is what it was before the write.\<close>

definition rejected_with ::
  "validator_error \<Rightarrow> 'd collection \<Rightarrow> (store_error + nat) \<times> 'd collection \<Rightarrow> bool" where
  "rejected_with e c result =
     (case fst result of
        Inl (ValidationError errs) \<Rightarrow> e \<in> set errs \<and> snd result = c
      | Inl DocumentNotFound \<Rightarrow> False
      | Inr i \<Rightarrow> False)"


section \<open>Reading the schema options\<close>

lemmas interp_defs = doValidate_def minValidator_def enumValidator_def maxlengthValidator_def
  customValidator_def SchemaNumber_doValidate_def SchemaString_doValidate_def
  SchemaArray_doValidate_def Subdocument_doValidate_def applyDefault_def
  SchemaArray_applyDefault_def SchemaString_applySetters_def SchemaType_def

lemmas guide_option_defs = guide_locationSchema_district_def guide_locationSchema_state_def
  guide_pricingSchema_halfDay_def guide_pricingSchema_fullDay_def
  guide_pricingSchema_multiDay_def guide_pricingSchema_workshop_def guideSchema_name_def
  guideSchema_bio_def guideSchema_specializations_def guideSchema_languages_def
  guideSchema_experience_def guideSchema_location_def guideSchema_pricing_def
  guideSchema_certifications_def guideSchema_availability_def

lemmas guide_schema_defs = guide_locationSchema_init_def guide_locationSchema_validate_def
  guide_pricingSchema_init_def guide_pricingSchema_validate_def guideSchema_applySetters_def
  guideSchema_applyDefaults_def guideSchema_paths_def guideSchema_validate_def
  guideSchema_validateSupplied_def

lemmas store_defs = collection_insert_def collection_update_def GuideModel_create_def
  GuideModel_update_def HomestayModel_create_def HomestayModel_update_def

lemmas string_defs = trim_string_def stripAll.simps whiteSpace_def js_length_def

lemma path_errors_in_all:
  "(b, es) \<in> set paths \<Longrightarrow> set es \<subseteq> set (concat (map snd paths))"
  by (induction paths) auto

lemma path_errors_in_supplied:
  "(True, es) \<in> set paths \<Longrightarrow> set es \<subseteq> set (concat (map snd (filter fst paths)))"
  by (induction paths) auto

lemma no_errors_all_iff:
  "concat (map snd paths) = [] \<longleftrightarrow> (\<forall>p \<in> set paths. snd p = [])"
  by (induction paths) auto

lemma no_errors_supplied_iff:
  "concat (map snd (filter fst paths)) = [] \<longleftrightarrow> (\<forall>p \<in> set paths. fst p \<longrightarrow> snd p = [])"
  by (induction paths) auto

lemma guide_create_cases:
  "guide_create now input =
     (if guideSchema_validate (guideSchema_applyDefaults (guideSchema_applySetters input)) = []
      then Inr \<lparr>doc = guideSchema_applyDefaults (guideSchema_applySetters input),
                createdAt = now, updatedAt = now\<rparr>
      else Inl (guideSchema_validate (guideSchema_applyDefaults (guideSchema_applySetters input))))"
  by (simp add: guide_create_def Let_def)

lemma guide_update_cases:
  "guide_update now input old =
     (if guideSchema_validateSupplied (guideSchema_applySetters input) = []
      then Inr \<lparr>doc = guide_merge (guideSchema_applySetters input) (doc old),
                createdAt = createdAt old, updatedAt = now\<rparr>
      else Inl (guideSchema_validateSupplied (guideSchema_applySetters input)))"
  by (simp add: guide_update_def Let_def)

lemma rejected_create:
  assumes "e \<in> set (guideSchema_validate (guideSchema_applyDefaults (guideSchema_applySetters input)))"
  shows "\<exists>errs. GuideModel_create now input c = (Inl (ValidationError errs), c) \<and> e \<in> set errs"
proof -
  let ?errs = "guideSchema_validate (guideSchema_applyDefaults (guideSchema_applySetters input))"
  from assms have "?errs \<noteq> []" by auto
  then have "GuideModel_create now input c = (Inl (ValidationError ?errs), c)"
    by (simp add: GuideModel_create_def collection_insert_def guide_create_cases)
  with assms show ?thesis by blast
qed

lemma rejected_update:
  assumes "e \<in> set (guideSchema_validateSupplied (guideSchema_applySetters input))"
    and "i < length c"
  shows "\<exists>errs. GuideModel_update now i input c = (Inl (ValidationError errs), c) \<and> e \<in> set errs"
proof -
  let ?errs = "guideSchema_validateSupplied (guideSchema_applySetters input)"
  from assms have "?errs \<noteq> []" by auto
  then have "GuideModel_update now i input c = (Inl (ValidationError ?errs), c)"
    using assms(2) by (simp add: GuideModel_update_def collection_update_def guide_update_cases)
  with assms show ?thesis by blast
qed






lemmas homestay_option_defs = coordinatesSchema_lat_def coordinatesSchema_lng_def
  homestay_locationSchema_address_def homestay_locationSchema_district_def
  homestay_locationSchema_state_def homestay_locationSchema_coordinates_def
  homestay_pricingSchema_basePrice_def homestay_pricingSchema_cleaningFee_def
  homestay_pricingSchema_weekendPrice_def capacitySchema_guests_def capacitySchema_bedrooms_def
  capacitySchema_beds_def capacitySchema_bathrooms_def homestaySchema_title_def
  homestaySchema_description_def homestaySchema_propertyType_def homestaySchema_location_def
  homestaySchema_pricing_def homestaySchema_capacity_def homestaySchema_amenities_def
  homestaySchema_houseRules_def homestaySchema_images_def homestaySchema_status_def

lemmas homestay_schema_defs = coordinatesSchema_init_def coordinatesSchema_validate_def
  homestay_locationSchema_init_def homestay_locationSchema_validate_def
  homestay_pricingSchema_init_def homestay_pricingSchema_validate_def capacitySchema_init_def
  capacitySchema_validate_def homestaySchema_applySetters_def homestaySchema_applyDefaults_def
  homestaySchema_paths_def homestaySchema_validate_def homestaySchema_validateSupplied_def
  homestay_of_input_def

lemma Subdocument_doValidate_Some:
  "Subdocument_doValidate sub opts path (Some d) = sub (path @ ''.'') d"
  by (simp add: Subdocument_doValidate_def doValidate_def)

lemma homestay_create_cases:
  "homestay_create now input =
     (if homestaySchema_validate
           (homestaySchema_applyDefaults (homestaySchema_applySetters (homestay_of_input input))) = []
      then Inr \<lparr>doc = homestaySchema_applyDefaults
                        (homestaySchema_applySetters (homestay_of_input input)),
                createdAt = now, updatedAt = now\<rparr>
      else Inl (homestaySchema_validate
           (homestaySchema_applyDefaults (homestaySchema_applySetters (homestay_of_input input)))))"
  by (simp add: homestay_create_def Let_def)

lemma homestay_update_cases:
  "homestay_update now input old =
     (if homestaySchema_validateSupplied (homestaySchema_applySetters input) = []
      then Inr \<lparr>doc = homestay_merge (homestaySchema_applySetters input) (doc old),
                createdAt = createdAt old, updatedAt = now\<rparr>
      else Inl (homestaySchema_validateSupplied (homestaySchema_applySetters input)))"
  by (simp add: homestay_update_def Let_def)

lemma homestay_pricingSchema_validate_eq:
  "homestay_pricingSchema_validate prefix p =
     (case basePrice p of
        None \<Rightarrow> [ValidatorError (prefix @ ''basePrice'') KRequired None]
      | Some x \<Rightarrow> if 100 \<le> x then [] else [ValidatorError (prefix @ ''basePrice'') KMin None])"
  by (simp add: homestay_pricingSchema_validate_def homestay_option_defs interp_defs
      split: option.split)

lemma homestay_pricingSchema_init_id: "homestay_pricingSchema_init p = p"
  by (simp add: homestay_pricingSchema_init_def homestay_option_defs interp_defs
      split: option.split)

lemma homestay_new_pricing:
  "homestay_pricing (homestaySchema_applyDefaults (homestaySchema_applySetters
      (homestay_of_input (input\<lparr>homestay_pricing := Some p\<rparr>)))) = Some p"
  by (simp add: homestaySchema_applyDefaults_def homestaySchema_applySetters_def
      homestay_of_input_def homestay_pricingSchema_init_id applyDefault_def)

lemma homestay_valid_iff:
  "homestaySchema_validate h = [] \<longleftrightarrow>
     SchemaString_doValidate homestaySchema_title ''title'' (title h) = []
   \<and> SchemaString_doValidate homestaySchema_description ''description'' (description h) = []
   \<and> SchemaString_doValidate homestaySchema_propertyType ''propertyType'' (propertyType h) = []
   \<and> Subdocument_doValidate homestay_locationSchema_validate homestaySchema_location
        ''location'' (homestay_location h) = []
   \<and> Subdocument_doValidate homestay_pricingSchema_validate homestaySchema_pricing
        ''pricing'' (homestay_pricing h) = []
   \<and> Subdocument_doValidate capacitySchema_validate homestaySchema_capacity ''capacity''
        (capacity h) = []
   \<and> SchemaArray_doValidate homestaySchema_amenities ''amenities'' (amenities h) = []
   \<and> SchemaArray_doValidate homestaySchema_houseRules ''houseRules'' (houseRules h) = []
   \<and> SchemaArray_doValidate homestaySchema_images ''images'' (images h) = []
   \<and> SchemaString_doValidate homestaySchema_status ''status'' (status h) = []"
  by (simp add: homestaySchema_validate_def homestaySchema_paths_def)

lemma HomestayModel_create_cases:
  "HomestayModel_create now input c =
     (case homestay_create now input of
        Inl errs \<Rightarrow> (Inl (ValidationError errs), c)
      | Inr d \<Rightarrow> (Inr (length c), c @ [d]))"
  by (simp add: HomestayModel_create_def collection_insert_def)

lemma HomestayModel_create_accepted:
  "HomestayModel_create now input c = (Inr i, c') \<Longrightarrow>
   homestaySchema_validate
     (homestaySchema_applyDefaults (homestaySchema_applySetters (homestay_of_input input))) = []"
  by (simp add: HomestayModel_create_cases homestay_create_cases split: if_splits)

lemma homestay_basePrice_valid_iff:
  assumes "homestaySchema_validate (homestaySchema_applyDefaults (homestaySchema_applySetters
      (homestay_of_input (input\<lparr>homestay_pricing := Some (p\<lparr>basePrice := Some b_ok\<rparr>)\<rparr>)))) = []"
  shows "homestaySchema_validate (homestaySchema_applyDefaults (homestaySchema_applySetters
      (homestay_of_input (input\<lparr>homestay_pricing := Some (p\<lparr>basePrice := Some b\<rparr>)\<rparr>)))) = []
    \<longleftrightarrow> 100 \<le> b"
  using assms
  by (simp add: homestay_valid_iff homestaySchema_applyDefaults_def homestaySchema_applySetters_def
      homestay_of_input_def homestay_pricingSchema_init_id Subdocument_doValidate_Some
      homestay_pricingSchema_validate_eq applyDefault_def split: if_splits)

section \<open>Guide prices\<close>




section \<open>Homestay base price\<close>

text \<open>
  C2. Homestay creation checks \<^verbatim>\<open>pricing.basePrice\<close> against the lower bound 100 exactly:
  an input that is valid for some base price is rejected (kind \<^verbatim>\<open>min\<close> on
  \<^verbatim>\<open>pricing.basePrice\<close>, nothing persisted) with every base price below 100, so with 99, and
  is accepted and persisted with every base price from 100 on, so with 100.
\<close>

theorem homestay_basePrice_boundary:
  assumes "HomestayModel_create now (input\<lparr>homestay_pricing := Some (p\<lparr>basePrice := Some b_ok\<rparr>)\<rparr>) c
             = (Inr i_ok, c_ok)"
  shows "if b < 100
         then \<exists>errs. HomestayModel_create now
                  (input\<lparr>homestay_pricing := Some (p\<lparr>basePrice := Some b\<rparr>)\<rparr>) c
                = (Inl (ValidationError errs), c)
              \<and> ValidatorError ''pricing.basePrice'' KMin None \<in> set errs
         else \<exists>d. HomestayModel_create now
                  (input\<lparr>homestay_pricing := Some (p\<lparr>basePrice := Some b\<rparr>)\<rparr>) c
                = (Inr (length c), c @ [d])
              \<and> homestay_pricing (doc d) = Some (p\<lparr>basePrice := Some b\<rparr>)"
proof -
  let ?new = "\<lambda>x. homestaySchema_applyDefaults (homestaySchema_applySetters
      (homestay_of_input (input\<lparr>homestay_pricing := Some (p\<lparr>basePrice := Some x\<rparr>)\<rparr>)))"
  have iff: "homestaySchema_validate (?new b) = [] \<longleftrightarrow> 100 \<le> b"
    by (rule homestay_basePrice_valid_iff [OF HomestayModel_create_accepted [OF assms]])
  show ?thesis
  proof (cases "b < 100")
    case True
    have "homestay_pricing (?new b) = Some (p\<lparr>basePrice := Some b\<rparr>)"
      by (rule homestay_new_pricing)
    then have "ValidatorError ''pricing.basePrice'' KMin None \<in> set (homestaySchema_validate (?new b))"
      using True
      by (simp add: homestaySchema_validate_def homestaySchema_paths_def
          Subdocument_doValidate_Some homestay_pricingSchema_validate_eq)
    moreover have "homestaySchema_validate (?new b) \<noteq> []" using iff True by simp
    ultimately show ?thesis using True
      by (simp add: HomestayModel_create_cases homestay_create_cases)
  next
    case False
    then have "homestaySchema_validate (?new b) = []" using iff by simp
    then show ?thesis using False homestay_new_pricing [where input = input and p = "p\<lparr>basePrice := Some b\<rparr>"]
      by (simp add: HomestayModel_create_cases homestay_create_cases)
  qed
qed

theorem homestay_basePrice_boundary_witness:
  "(\<exists>errs. HomestayModel_create 0
        (sample_homestay\<lparr>homestay_pricing :=
           Some (\<lparr>basePrice = Some 100, cleaningFee = None, weekendPrice = None\<rparr>
                   \<lparr>basePrice := Some 99\<rparr>)\<rparr>) []
      = (Inl (ValidationError errs), [])
      \<and> ValidatorError ''pricing.basePrice'' KMin None \<in> set errs)
   \<and> (\<exists>d. HomestayModel_create 0
        (sample_homestay\<lparr>homestay_pricing :=
           Some (\<lparr>basePrice = Some 100, cleaningFee = None, weekendPrice = None\<rparr>
                   \<lparr>basePrice := Some 100\<rparr>)\<rparr>) []
      = (Inr 0, [d])
      \<and> homestay_pricing (doc d)
        = Some \<lparr>basePrice = Some 100, cleaningFee = None, weekendPrice = None\<rparr>)"
proof -
  let ?p = "\<lparr>basePrice = Some 100, cleaningFee = None, weekendPrice = None\<rparr>"
  let ?input = "sample_homestay\<lparr>homestay_pricing := Some (?p\<lparr>basePrice := Some 100\<rparr>)\<rparr>"
  have ok: "HomestayModel_create 0 ?input [] = (Inr 0, snd (HomestayModel_create 0 ?input []))"
    by (simp add: sample_homestay_def store_defs homestay_create_def homestay_schema_defs
        homestay_option_defs interp_defs string_defs)
  show ?thesis
    using homestay_basePrice_boundary [OF ok, of 99] homestay_basePrice_boundary [OF ok, of 100]
    by simp
qed

section \<open>Guide specializations and languages\<close>

lemma guide_valid_iff:
  "guideSchema_validate g = [] \<longleftrightarrow>
     SchemaString_doValidate guideSchema_name ''name'' (name g) = []
   \<and> SchemaString_doValidate guideSchema_bio ''bio'' (bio g) = []
   \<and> SchemaArray_doValidate guideSchema_specializations ''specializations'' (specializations g) = []
   \<and> SchemaArray_doValidate guideSchema_languages ''languages'' (languages g) = []
   \<and> SchemaString_doValidate guideSchema_experience ''experience'' (experience g) = []
   \<and> Subdocument_doValidate guide_locationSchema_validate guideSchema_location ''location''
        (guide_location g) = []
   \<and> Subdocument_doValidate guide_pricingSchema_validate guideSchema_pricing ''pricing''
        (guide_pricing g) = []
   \<and> SchemaArray_doValidate guideSchema_certifications ''certifications'' (certifications g) = []
   \<and> SchemaString_doValidate guideSchema_availability ''availability'' (availability g) = []"
  by (simp add: guideSchema_validate_def guideSchema_paths_def)

lemma guide_supplied_valid_iff:
  "guideSchema_validateSupplied g = [] \<longleftrightarrow>
     (name g \<noteq> None \<longrightarrow> SchemaString_doValidate guideSchema_name ''name'' (name g) = [])
   \<and> (bio g \<noteq> None \<longrightarrow> SchemaString_doValidate guideSchema_bio ''bio'' (bio g) = [])
   \<and> (specializations g \<noteq> None \<longrightarrow>
        SchemaArray_doValidate guideSchema_specializations ''specializations'' (specializations g) = [])
   \<and> (languages g \<noteq> None \<longrightarrow>
        SchemaArray_doValidate guideSchema_languages ''languages'' (languages g) = [])
   \<and> (experience g \<noteq> None \<longrightarrow>
        SchemaString_doValidate guideSchema_experience ''experience'' (experience g) = [])
   \<and> (guide_location g \<noteq> None \<longrightarrow>
        Subdocument_doValidate guide_locationSchema_validate guideSchema_location ''location''
          (guide_location g) = [])
   \<and> (guide_pricing g \<noteq> None \<longrightarrow>
        Subdocument_doValidate guide_pricingSchema_validate guideSchema_pricing ''pricing''
          (guide_pricing g) = [])
   \<and> (certifications g \<noteq> None \<longrightarrow>
        SchemaArray_doValidate guideSchema_certifications ''certifications'' (certifications g) = [])
   \<and> (availability g \<noteq> None \<longrightarrow>
        SchemaString_doValidate guideSchema_availability ''availability'' (availability g) = [])"
  unfolding guideSchema_validateSupplied_def no_errors_supplied_iff guideSchema_paths_def
  by simp

lemma guide_specializations_validate_eq:
  "SchemaArray_doValidate guideSchema_specializations path val =
     (case val of
        None \<Rightarrow> [ValidatorError path KRequired None]
      | Some xs \<Rightarrow>
          if xs \<noteq> [] then []
          else [ValidatorError path KUserDefined (Some ''At least one specialization is required'')])"
  by (simp add: guideSchema_specializations_def interp_defs split: option.split)

lemma guide_languages_validate_eq:
  "SchemaArray_doValidate guideSchema_languages path val =
     (case val of
        None \<Rightarrow> [ValidatorError path KRequired None]
      | Some xs \<Rightarrow>
          if xs \<noteq> [] then []
          else [ValidatorError path KUserDefined (Some ''At least one language is required'')])"
  by (simp add: guideSchema_languages_def interp_defs split: option.split)

lemma guide_new_collections:
  "specializations (guideSchema_applyDefaults (guideSchema_applySetters input))
     = (case specializations input of None \<Rightarrow> Some [] | Some xs \<Rightarrow> Some xs)"
  "languages (guideSchema_applyDefaults (guideSchema_applySetters input))
     = (case languages input of None \<Rightarrow> Some [] | Some xs \<Rightarrow> Some xs)"
  by (simp_all add: guideSchema_applyDefaults_def guideSchema_applySetters_def
      SchemaArray_applyDefault_def guideSchema_specializations_def guideSchema_languages_def
      SchemaType_def split: option.split)

lemma guide_set_collections:
  "specializations (guideSchema_applySetters input) = specializations input"
  "languages (guideSchema_applySetters input) = languages input"
  by (simp_all add: guideSchema_applySetters_def)

lemma guide_created_has_entries:
  assumes "guide_create now input = Inr d"
  shows "has_entries (specializations (doc d)) \<and> has_entries (languages (doc d))"
proof -
  let ?g = "guideSchema_applyDefaults (guideSchema_applySetters input)"
  from assms have v: "guideSchema_validate ?g = []" and d: "doc d = ?g"
    by (auto simp: guide_create_cases split: if_splits)
  from v have "SchemaArray_doValidate guideSchema_specializations ''specializations''
        (specializations ?g) = []"
    and "SchemaArray_doValidate guideSchema_languages ''languages'' (languages ?g) = []"
    by (simp_all add: guide_valid_iff)
  then show ?thesis
    unfolding d
    by (auto simp: guide_specializations_validate_eq guide_languages_validate_eq has_entries_def
        split: option.splits if_splits)
qed

lemma guide_updated_has_entries:
  assumes "guide_update now input old = Inr d"
    and "has_entries (specializations (doc old)) \<and> has_entries (languages (doc old))"
  shows "has_entries (specializations (doc d)) \<and> has_entries (languages (doc d))"
proof -
  let ?u = "guideSchema_applySetters input"
  from assms(1) have v: "guideSchema_validateSupplied ?u = []"
    and d: "doc d = guide_merge ?u (doc old)"
    by (auto simp: guide_update_cases split: if_splits)
  from v have s: "specializations input \<noteq> None \<longrightarrow>
      SchemaArray_doValidate guideSchema_specializations ''specializations''
        (specializations input) = []"
    and l: "languages input \<noteq> None \<longrightarrow>
      SchemaArray_doValidate guideSchema_languages ''languages'' (languages input) = []"
    by (simp_all add: guide_supplied_valid_iff guide_set_collections)
  have "has_entries (specializations (doc d))"
    using s assms(2) unfolding d
    by (cases "specializations input")
      (auto simp: guide_merge_def supplied_or_def guide_set_collections
        guide_specializations_validate_eq has_entries_def split: if_splits)
  moreover have "has_entries (languages (doc d))"
    using l assms(2) unfolding d
    by (cases "languages input")
      (auto simp: guide_merge_def supplied_or_def guide_set_collections
        guide_languages_validate_eq has_entries_def split: if_splits)
  ultimately show ?thesis by simp
qed

lemma guide_apply_preserves:
  assumes "\<forall>d \<in> set c. has_entries (specializations (doc d)) \<and> has_entries (languages (doc d))"
  shows "\<forall>d \<in> set (guide_apply c op).
           has_entries (specializations (doc d)) \<and> has_entries (languages (doc d))"
proof (cases op)
  case (CreateGuide now input)
  show ?thesis
  proof (cases "guide_create now input")
    case (Inl errs)
    with CreateGuide assms show ?thesis
      by (simp add: GuideModel_create_def collection_insert_def)
  next
    case (Inr d)
    with CreateGuide assms guide_created_has_entries [OF Inr] show ?thesis
      by (simp add: GuideModel_create_def collection_insert_def)
  qed
next
  case (UpdateGuide now i input)
  show ?thesis
  proof (cases "i < length c")
    case False
    with UpdateGuide assms show ?thesis
      by (simp add: GuideModel_update_def collection_update_def)
  next
    case True
    show ?thesis
    proof (cases "guide_update now input (c ! i)")
      case (Inl errs)
      with UpdateGuide True assms show ?thesis
        by (simp add: GuideModel_update_def collection_update_def)
    next
      case (Inr d)
      from True assms have "has_entries (specializations (doc (c ! i)))
          \<and> has_entries (languages (doc (c ! i)))"
        by simp
      from guide_updated_has_entries [OF Inr this] have "has_entries (specializations (doc d))
          \<and> has_entries (languages (doc d))" .
      moreover have "set (c[i := d]) \<subseteq> insert d (set c)"
        by (rule set_update_subset_insert)
      ultimately show ?thesis using UpdateGuide True Inr assms
        by (auto simp: GuideModel_update_def collection_update_def)
    qed
  qed
qed

lemma guide_history_preserves:
  "\<forall>d \<in> set c. has_entries (specializations (doc d)) \<and> has_entries (languages (doc d)) \<Longrightarrow>
   \<forall>d \<in> set (foldl guide_apply c ops).
     has_entries (specializations (doc d)) \<and> has_entries (languages (doc d))"
proof (induction ops arbitrary: c)
  case Nil
  then show ?case by simp
next
  case (Cons op ops)
  from Cons.IH [OF guide_apply_preserves [OF Cons.prems]] show ?case by simp
qed


lemma guide_collection_errors_new:
  "set (SchemaArray_doValidate guideSchema_specializations ''specializations'' (specializations g))
     \<subseteq> set (guideSchema_validate g)"
  "set (SchemaArray_doValidate guideSchema_languages ''languages'' (languages g))
     \<subseteq> set (guideSchema_validate g)"
  by (auto simp: guideSchema_validate_def guideSchema_paths_def)

lemma guide_collection_errors_supplied:
  "specializations g \<noteq> None \<Longrightarrow>
   set (SchemaArray_doValidate guideSchema_specializations ''specializations'' (specializations g))
     \<subseteq> set (guideSchema_validateSupplied g)"
  "languages g \<noteq> None \<Longrightarrow>
   set (SchemaArray_doValidate guideSchema_languages ''languages'' (languages g))
     \<subseteq> set (guideSchema_validateSupplied g)"
  unfolding guideSchema_validateSupplied_def
  by (rule path_errors_in_supplied, simp add: guideSchema_paths_def)+

text \<open>
  C3. Every stored Guide has at least one entry in \<^verbatim>\<open>specializations\<close> and at least one in
  \<^verbatim>\<open>languages\<close>, after any history of creations and updates from the empty collection. A
  creation input whose \<^verbatim>\<open>specializations\<close> or \<^verbatim>\<open>languages\<close> is empty or absent is
  rejected by the path's own validator (kind \<^verbatim>\<open>user defined\<close>, "At least one ... is
  required": the spec's EmptyRequiredCollection) and nothing is persisted; an update that
  supplies an empty array for either is rejected in the same way and changes nothing.
\<close>

theorem guide_collections_never_empty:
  "(\<forall>d \<in> set (guides_after ops).
      has_entries (specializations (doc d)) \<and> has_entries (languages (doc d)))
   \<and> (\<not> has_entries (specializations input) \<longrightarrow>
        (\<exists>errs. GuideModel_create now input c = (Inl (ValidationError errs), c)
           \<and> ValidatorError ''specializations'' KUserDefined
                (Some ''At least one specialization is required'') \<in> set errs))
   \<and> (\<not> has_entries (languages input) \<longrightarrow>
        (\<exists>errs. GuideModel_create now input c = (Inl (ValidationError errs), c)
           \<and> ValidatorError ''languages'' KUserDefined
                (Some ''At least one language is required'') \<in> set errs))
   \<and> (specializations input = Some [] \<and> i < length c \<longrightarrow>
        (\<exists>errs. GuideModel_update now i input c = (Inl (ValidationError errs), c)
           \<and> ValidatorError ''specializations'' KUserDefined
                (Some ''At least one specialization is required'') \<in> set errs))
   \<and> (languages input = Some [] \<and> i < length c \<longrightarrow>
        (\<exists>errs. GuideModel_update now i input c = (Inl (ValidationError errs), c)
           \<and> ValidatorError ''languages'' KUserDefined
                (Some ''At least one language is required'') \<in> set errs))"
proof -
  let ?new = "guideSchema_applyDefaults (guideSchema_applySetters input)"
  let ?set = "guideSchema_applySetters input"
  let ?es = "ValidatorError ''specializations'' KUserDefined
                (Some ''At least one specialization is required'')"
  let ?el = "ValidatorError ''languages'' KUserDefined
                (Some ''At least one language is required'')"
  have inv: "\<forall>d \<in> set (guides_after ops).
      has_entries (specializations (doc d)) \<and> has_entries (languages (doc d))"
    unfolding guides_after_def by (rule guide_history_preserves) simp
  have cs: "\<exists>errs. GuideModel_create now input c = (Inl (ValidationError errs), c) \<and> ?es \<in> set errs"
    if "\<not> has_entries (specializations input)"
  proof -
    from that have "?es \<in> set (SchemaArray_doValidate guideSchema_specializations
        ''specializations'' (specializations ?new))"
      by (simp add: guide_new_collections guide_specializations_validate_eq has_entries_def
          split: option.splits)
    with guide_collection_errors_new(1) [of ?new] have "?es \<in> set (guideSchema_validate ?new)"
      by blast
    then show ?thesis by (rule rejected_create)
  qed
  have cl: "\<exists>errs. GuideModel_create now input c = (Inl (ValidationError errs), c) \<and> ?el \<in> set errs"
    if "\<not> has_entries (languages input)"
  proof -
    from that have "?el \<in> set (SchemaArray_doValidate guideSchema_languages
        ''languages'' (languages ?new))"
      by (simp add: guide_new_collections guide_languages_validate_eq has_entries_def
          split: option.splits)
    with guide_collection_errors_new(2) [of ?new] have "?el \<in> set (guideSchema_validate ?new)"
      by blast
    then show ?thesis by (rule rejected_create)
  qed
  have us: "\<exists>errs. GuideModel_update now i input c = (Inl (ValidationError errs), c) \<and> ?es \<in> set errs"
    if "specializations input = Some []" and "i < length c"
  proof -
    from that(1) have "?es \<in> set (SchemaArray_doValidate guideSchema_specializations
        ''specializations'' (specializations ?set))"
      and "specializations ?set \<noteq> None"
      by (simp_all add: guide_set_collections guide_specializations_validate_eq)
    with guide_collection_errors_supplied(1) [of ?set]
    have "?es \<in> set (guideSchema_validateSupplied ?set)" by blast
    then show ?thesis using that(2) by (rule rejected_update)
  qed
  have ul: "\<exists>errs. GuideModel_update now i input c = (Inl (ValidationError errs), c) \<and> ?el \<in> set errs"
    if "languages input = Some []" and "i < length c"
  proof -
    from that(1) have "?el \<in> set (SchemaArray_doValidate guideSchema_languages
        ''languages'' (languages ?set))"
      and "languages ?set \<noteq> None"
      by (simp_all add: guide_set_collections guide_languages_validate_eq)
    with guide_collection_errors_supplied(2) [of ?set]
    have "?el \<in> set (guideSchema_validateSupplied ?set)" by blast
    then show ?thesis using that(2) by (rule rejected_update)
  qed
  from inv cs cl us ul show ?thesis by blast
qed

theorem guide_collections_never_empty_witness:
  "length (guides_after
      [CreateGuide 0 sample_guide,
       UpdateGuide 1 0 (guide_no_changes\<lparr>specializations := Some []\<rparr>),
       CreateGuide 2 (sample_guide\<lparr>languages := None\<rparr>),
       UpdateGuide 3 0 (guide_no_changes\<lparr>languages := Some [''Santali'']\<rparr>)]) = 1
   \<and> has_entries (specializations (doc (guides_after
      [CreateGuide 0 sample_guide,
       UpdateGuide 1 0 (guide_no_changes\<lparr>specializations := Some []\<rparr>),
       CreateGuide 2 (sample_guide\<lparr>languages := None\<rparr>),
       UpdateGuide 3 0 (guide_no_changes\<lparr>languages := Some [''Santali'']\<rparr>)] ! 0)))
   \<and> has_entries (languages (doc (guides_after
      [CreateGuide 0 sample_guide,
       UpdateGuide 1 0 (guide_no_changes\<lparr>specializations := Some []\<rparr>),
       CreateGuide 2 (sample_guide\<lparr>languages := None\<rparr>),
       UpdateGuide 3 0 (guide_no_changes\<lparr>languages := Some [''Santali'']\<rparr>)] ! 0)))
   \<and> (\<exists>errs. GuideModel_create 2 (sample_guide\<lparr>languages := None\<rparr>)
          (snd (GuideModel_create 0 sample_guide []))
        = (Inl (ValidationError errs), snd (GuideModel_create 0 sample_guide []))
        \<and> ValidatorError ''languages'' KUserDefined
             (Some ''At least one language is required'') \<in> set errs)"
proof -
  let ?ops = "[CreateGuide 0 sample_guide,
       UpdateGuide 1 0 (guide_no_changes\<lparr>specializations := Some []\<rparr>),
       CreateGuide 2 (sample_guide\<lparr>languages := None\<rparr>),
       UpdateGuide 3 0 (guide_no_changes\<lparr>languages := Some [''Santali'']\<rparr>)]"
  let ?c = "snd (GuideModel_create 0 sample_guide [])"
  have len: "length (guides_after ?ops) = 1"
    by (simp add: guides_after_def sample_guide_def guide_no_changes_def store_defs
        guide_create_def guide_update_def guide_merge_def supplied_or_def guide_schema_defs
        guide_option_defs interp_defs string_defs)
  then have mem: "guides_after ?ops ! 0 \<in> set (guides_after ?ops)"
    by simp
  have absent: "\<not> has_entries (languages (sample_guide\<lparr>languages := None\<rparr>))"
    by (simp add: has_entries_def)
  show ?thesis
    using guide_collections_never_empty [of ?ops "sample_guide\<lparr>languages := None\<rparr>" 2 ?c 0]
      len mem absent
    by blast
qed

section \<open>Defaults on creation\<close>

lemma GuideModel_create_accepted:
  assumes "GuideModel_create now input c = (Inr i, c')"
  shows "guideSchema_validate (guideSchema_applyDefaults (guideSchema_applySetters input)) = []"
    and "i = length c"
    and "c' = c @ [\<lparr>doc = guideSchema_applyDefaults (guideSchema_applySetters input),
                     createdAt = now, updatedAt = now\<rparr>]"
  using assms
  by (simp_all add: GuideModel_create_def collection_insert_def guide_create_cases
      split: if_splits)

lemma HomestayModel_create_stored:
  assumes "HomestayModel_create now input c = (Inr i, c')"
  shows "i = length c"
    and "c' = c @ [\<lparr>doc = homestaySchema_applyDefaults
                             (homestaySchema_applySetters (homestay_of_input input)),
                     createdAt = now, updatedAt = now\<rparr>]"
  using assms
  by (simp_all add: HomestayModel_create_cases homestay_create_cases split: if_splits)

lemma guide_new_defaults:
  "availability input = None \<Longrightarrow>
   availability (guideSchema_applyDefaults (guideSchema_applySetters input)) = Some ''available''"
  "map_option guide_state (guide_location input) = Some None \<Longrightarrow>
   map_option guide_state
     (guide_location (guideSchema_applyDefaults (guideSchema_applySetters input)))
   = Some (Some ''Jharkhand'')"
  by (auto simp: guideSchema_applyDefaults_def guideSchema_applySetters_def
      guide_locationSchema_init_def guide_option_defs interp_defs)

lemma homestay_new_defaults:
  "propertyType input = None \<Longrightarrow>
   propertyType (homestaySchema_applyDefaults (homestaySchema_applySetters
     (homestay_of_input input))) = Some ''entire''"
  "status (homestaySchema_applyDefaults (homestaySchema_applySetters
     (homestay_of_input input))) = Some ''active''"
  "map_option homestay_state (homestay_location input) = Some None \<Longrightarrow>
   map_option homestay_state (homestay_location (homestaySchema_applyDefaults
     (homestaySchema_applySetters (homestay_of_input input)))) = Some (Some ''Jharkhand'')"
  "amenities input = None \<Longrightarrow>
   amenities (homestaySchema_applyDefaults (homestaySchema_applySetters
     (homestay_of_input input))) = Some []"
  "images input = None \<Longrightarrow>
   images (homestaySchema_applyDefaults (homestaySchema_applySetters
     (homestay_of_input input))) = Some []"
  by (auto simp: homestaySchema_applyDefaults_def homestaySchema_applySetters_def
      homestay_of_input_def homestay_locationSchema_init_def homestay_option_defs interp_defs)

text \<open>
  C4. For every creation input that is accepted, each defaulted key that the input leaves
  absent has its default in the stored document: for a Guide, \<^verbatim>\<open>availability\<close> is
  \<^verbatim>\<open>'available'\<close> and, in the supplied location, \<^verbatim>\<open>state\<close> is \<^verbatim>\<open>'Jharkhand'\<close>; for a
  Homestay, \<^verbatim>\<open>propertyType\<close> is \<^verbatim>\<open>'entire'\<close>, \<^verbatim>\<open>status\<close> is \<^verbatim>\<open>'active'\<close>,
  \<^verbatim>\<open>location.state\<close> is \<^verbatim>\<open>'Jharkhand'\<close>, and \<^verbatim>\<open>amenities\<close> and \<^verbatim>\<open>images\<close> are empty.
\<close>

theorem creation_defaults:
  "(GuideModel_create now gi gc = (Inr i, gc') \<longrightarrow>
      i < length gc'
      \<and> (availability gi = None \<longrightarrow> availability (doc (gc' ! i)) = Some ''available'')
      \<and> (map_option guide_state (guide_location gi) = Some None \<longrightarrow>
           map_option guide_state (guide_location (doc (gc' ! i))) = Some (Some ''Jharkhand'')))
   \<and> (HomestayModel_create now hi hc = (Inr j, hc') \<longrightarrow>
      j < length hc'
      \<and> (propertyType hi = None \<longrightarrow> propertyType (doc (hc' ! j)) = Some ''entire'')
      \<and> status (doc (hc' ! j)) = Some ''active''
      \<and> (map_option homestay_state (homestay_location hi) = Some None \<longrightarrow>
           map_option homestay_state (homestay_location (doc (hc' ! j)))
           = Some (Some ''Jharkhand''))
      \<and> (amenities hi = None \<longrightarrow> amenities (doc (hc' ! j)) = Some [])
      \<and> (images hi = None \<longrightarrow> images (doc (hc' ! j)) = Some []))"
proof (intro conjI impI)
  assume a: "GuideModel_create now gi gc = (Inr i, gc')"
  note st = GuideModel_create_accepted(2,3) [OF a]
  show "i < length gc'" by (simp add: st)
  show "availability (doc (gc' ! i)) = Some ''available''" if "availability gi = None"
    using that by (simp add: st guide_new_defaults)
  show "map_option guide_state (guide_location (doc (gc' ! i))) = Some (Some ''Jharkhand'')"
    if "map_option guide_state (guide_location gi) = Some None"
    using that by (simp add: st guide_new_defaults)
next
  assume a: "HomestayModel_create now hi hc = (Inr j, hc')"
  note st = HomestayModel_create_stored [OF a]
  show "j < length hc'" by (simp add: st)
  show "propertyType (doc (hc' ! j)) = Some ''entire''" if "propertyType hi = None"
    using that by (simp add: st homestay_new_defaults)
  show "status (doc (hc' ! j)) = Some ''active''"
    by (simp add: st homestay_new_defaults)
  show "map_option homestay_state (homestay_location (doc (hc' ! j))) = Some (Some ''Jharkhand'')"
    if "map_option homestay_state (homestay_location hi) = Some None"
    using that by (simp add: st homestay_new_defaults)
  show "amenities (doc (hc' ! j)) = Some []" if "amenities hi = None"
    using that by (simp add: st homestay_new_defaults)
  show "images (doc (hc' ! j)) = Some []" if "images hi = None"
    using that by (simp add: st homestay_new_defaults)
qed

theorem creation_defaults_witness:
  "availability (doc (snd (GuideModel_create 0 sample_guide []) ! 0)) = Some ''available''
   \<and> map_option guide_state (guide_location (doc (snd (GuideModel_create 0 sample_guide []) ! 0)))
     = Some (Some ''Jharkhand'')
   \<and> propertyType (doc (snd (HomestayModel_create 0 sample_homestay []) ! 0)) = Some ''entire''
   \<and> status (doc (snd (HomestayModel_create 0 sample_homestay []) ! 0)) = Some ''active''
   \<and> map_option homestay_state
       (homestay_location (doc (snd (HomestayModel_create 0 sample_homestay []) ! 0)))
     = Some (Some ''Jharkhand'')
   \<and> amenities (doc (snd (HomestayModel_create 0 sample_homestay []) ! 0)) = Some []
   \<and> images (doc (snd (HomestayModel_create 0 sample_homestay []) ! 0)) = Some []"
proof -
  have g: "GuideModel_create 0 sample_guide [] = (Inr 0, snd (GuideModel_create 0 sample_guide []))"
    by (simp add: sample_guide_def store_defs guide_create_def guide_schema_defs
        guide_option_defs interp_defs string_defs)
  have h: "HomestayModel_create 0 sample_homestay []
      = (Inr 0, snd (HomestayModel_create 0 sample_homestay []))"
    by (simp add: sample_homestay_def store_defs homestay_create_def homestay_schema_defs
        homestay_option_defs interp_defs string_defs)
  have absent: "availability sample_guide = None"
    "map_option guide_state (guide_location sample_guide) = Some None"
    "propertyType sample_homestay = None"
    "map_option homestay_state (homestay_location sample_homestay) = Some None"
    "amenities sample_homestay = None" "images sample_homestay = None"
    by (simp_all add: sample_guide_def sample_homestay_def)
  show ?thesis
    using creation_defaults [of 0 sample_guide "[]" 0 "snd (GuideModel_create 0 sample_guide [])"
        sample_homestay "[]" 0 "snd (HomestayModel_create 0 sample_homestay [])"] g h absent
    by blast
qed

section \<open>Homestay capacity\<close>

lemma HomestayModel_create_rejects:
  assumes "e \<in> set (homestaySchema_validate (homestaySchema_applyDefaults
      (homestaySchema_applySetters (homestay_of_input input))))"
  shows "rejected_with e c (HomestayModel_create now input c)"
proof -
  from assms have "homestaySchema_validate (homestaySchema_applyDefaults
      (homestaySchema_applySetters (homestay_of_input input))) \<noteq> []"
    by auto
  with assms show ?thesis
    by (simp add: rejected_with_def HomestayModel_create_cases homestay_create_cases)
qed

lemma HomestayModel_update_rejects:
  assumes "e \<in> set (homestaySchema_validateSupplied (homestaySchema_applySetters upd))"
    and "i < length c"
  shows "rejected_with e c (HomestayModel_update now i upd c)"
proof -
  from assms have "homestaySchema_validateSupplied (homestaySchema_applySetters upd) \<noteq> []"
    by auto
  with assms show ?thesis
    by (simp add: rejected_with_def HomestayModel_update_def collection_update_def
        homestay_update_cases)
qed

lemma capacitySchema_validate_eq:
  "capacitySchema_validate prefix cp =
     (case guests cp of
        None \<Rightarrow> [ValidatorError (prefix @ ''guests'') KRequired None]
      | Some x \<Rightarrow> if 1 \<le> x then [] else [ValidatorError (prefix @ ''guests'') KMin None])
     @ (case bedrooms cp of
        None \<Rightarrow> [ValidatorError (prefix @ ''bedrooms'') KRequired None]
      | Some x \<Rightarrow> if 0 \<le> x then [] else [ValidatorError (prefix @ ''bedrooms'') KMin None])
     @ (case beds cp of
        None \<Rightarrow> [ValidatorError (prefix @ ''beds'') KRequired None]
      | Some x \<Rightarrow> if 1 \<le> x then [] else [ValidatorError (prefix @ ''beds'') KMin None])
     @ (case bathrooms cp of
        None \<Rightarrow> [ValidatorError (prefix @ ''bathrooms'') KRequired None]
      | Some x \<Rightarrow> if 0 \<le> x then [] else [ValidatorError (prefix @ ''bathrooms'') KMin None])"
  by (simp add: capacitySchema_validate_def homestay_option_defs interp_defs split: option.split)

lemma capacitySchema_init_id: "capacitySchema_init cp = cp"
  by (simp add: capacitySchema_init_def homestay_option_defs interp_defs split: option.split)

lemma homestay_capacity_errors_new:
  assumes "capacity input = Some cp"
  shows "set (capacitySchema_validate ''capacity.'' cp)
     \<subseteq> set (homestaySchema_validate (homestaySchema_applyDefaults
           (homestaySchema_applySetters (homestay_of_input input))))"
  using assms
  by (auto simp: homestaySchema_validate_def homestaySchema_paths_def
      homestaySchema_applyDefaults_def homestaySchema_applySetters_def homestay_of_input_def
      capacitySchema_init_id applyDefault_def Subdocument_doValidate_Some)

lemma homestay_capacity_errors_supplied:
  assumes "capacity upd = Some cp"
  shows "set (capacitySchema_validate ''capacity.'' cp)
     \<subseteq> set (homestaySchema_validateSupplied (homestaySchema_applySetters upd))"
proof -
  from assms have "(True, Subdocument_doValidate capacitySchema_validate homestaySchema_capacity
        ''capacity'' (Some cp))
      \<in> set (homestaySchema_paths (homestaySchema_applySetters upd))"
    by (simp add: homestaySchema_paths_def homestaySchema_applySetters_def
        capacitySchema_init_id)
  from path_errors_in_supplied [OF this] show ?thesis
    by (simp add: homestaySchema_validateSupplied_def Subdocument_doValidate_Some)
qed

lemma homestay_capacity_rejected:
  assumes "e \<in> set (capacitySchema_validate ''capacity.'' cp)"
  shows "(capacity input = Some cp \<longrightarrow> rejected_with e c (HomestayModel_create now input c))
       \<and> (capacity upd = Some cp \<and> i < length c \<longrightarrow>
            rejected_with e c (HomestayModel_update now i upd c))"
proof (intro conjI impI)
  assume "capacity input = Some cp"
  from homestay_capacity_errors_new [OF this] assms
  show "rejected_with e c (HomestayModel_create now input c)"
    by (intro HomestayModel_create_rejects) blast
next
  assume a: "capacity upd = Some cp \<and> i < length c"
  then have "capacity upd = Some cp" and i: "i < length c" by simp_all
  from homestay_capacity_errors_supplied [OF this(1)] assms
  have "e \<in> set (homestaySchema_validateSupplied (homestaySchema_applySetters upd))" by blast
  then show "rejected_with e c (HomestayModel_update now i upd c)"
    using i by (rule HomestayModel_update_rejects)
qed

lemma homestay_new_capacity:
  "capacity (homestaySchema_applyDefaults (homestaySchema_applySetters
      (homestay_of_input (input\<lparr>capacity := Some cp\<rparr>)))) = Some cp"
  by (simp add: homestaySchema_applyDefaults_def homestaySchema_applySetters_def
      homestay_of_input_def capacitySchema_init_id applyDefault_def)

lemma homestay_guests_valid_iff:
  assumes "homestaySchema_validate (homestaySchema_applyDefaults (homestaySchema_applySetters
      (homestay_of_input (input\<lparr>capacity := Some (cp\<lparr>guests := Some g_ok\<rparr>)\<rparr>)))) = []"
  shows "homestaySchema_validate (homestaySchema_applyDefaults (homestaySchema_applySetters
      (homestay_of_input (input\<lparr>capacity := Some (cp\<lparr>guests := Some g\<rparr>)\<rparr>)))) = []
    \<longleftrightarrow> 1 \<le> g"
  using assms
  by (simp add: homestay_valid_iff homestaySchema_applyDefaults_def homestaySchema_applySetters_def
      homestay_of_input_def capacitySchema_init_id Subdocument_doValidate_Some
      capacitySchema_validate_eq applyDefault_def split: if_splits option.splits)

text \<open>
  C5. Homestay capacity is held to \<^verbatim>\<open>guests\<close> \<open>\<ge>\<close> 1, \<^verbatim>\<open>bedrooms\<close> \<open>\<ge>\<close> 0,
  \<^verbatim>\<open>beds\<close> \<open>\<ge>\<close> 1 and \<^verbatim>\<open>bathrooms\<close> \<open>\<ge>\<close> 0: a creation input, or an update of a
  stored document, that supplies a capacity with one of the four below its bound is rejected
  (kind \<^verbatim>\<open>min\<close> on that path) and changes nothing. The bound on \<^verbatim>\<open>guests\<close> is exact: a
  creation input that is valid for some number of guests is rejected with every number below
  1, so with 0, and accepted and stored with every number from 1 on, so with 1.
\<close>

theorem homestay_capacity_bounds:
  "(\<forall>(field, path, m) \<in> set [(guests, ''capacity.guests'', 1),
        (bedrooms, ''capacity.bedrooms'', 0), (beds, ''capacity.beds'', 1),
        (bathrooms, ''capacity.bathrooms'', 0)].
      \<forall>x. field cp = Some x \<and> x < m \<longrightarrow>
        (capacity input = Some cp \<longrightarrow>
           rejected_with (ValidatorError path KMin None) c (HomestayModel_create now input c))
        \<and> (capacity upd = Some cp \<and> i < length c \<longrightarrow>
           rejected_with (ValidatorError path KMin None) c (HomestayModel_update now i upd c)))
   \<and> (HomestayModel_create now (input\<lparr>capacity := Some (cp\<lparr>guests := Some g_ok\<rparr>)\<rparr>) c
        = (Inr i_ok, c_ok) \<longrightarrow>
      (if g < 1
       then rejected_with (ValidatorError ''capacity.guests'' KMin None) c
              (HomestayModel_create now (input\<lparr>capacity := Some (cp\<lparr>guests := Some g\<rparr>)\<rparr>) c)
       else \<exists>d. HomestayModel_create now
                   (input\<lparr>capacity := Some (cp\<lparr>guests := Some g\<rparr>)\<rparr>) c
                 = (Inr (length c), c @ [d])
               \<and> capacity (doc d) = Some (cp\<lparr>guests := Some g\<rparr>)))"
proof (intro conjI impI)
  have guests: "ValidatorError ''capacity.guests'' KMin None
      \<in> set (capacitySchema_validate ''capacity.'' cp)" if "guests cp = Some x" "x < 1" for x
    using that by (simp add: capacitySchema_validate_eq)
  have bedrooms: "ValidatorError ''capacity.bedrooms'' KMin None
      \<in> set (capacitySchema_validate ''capacity.'' cp)" if "bedrooms cp = Some x" "x < 0" for x
    using that by (simp add: capacitySchema_validate_eq)
  have beds: "ValidatorError ''capacity.beds'' KMin None
      \<in> set (capacitySchema_validate ''capacity.'' cp)" if "beds cp = Some x" "x < 1" for x
    using that by (simp add: capacitySchema_validate_eq)
  have bathrooms: "ValidatorError ''capacity.bathrooms'' KMin None
      \<in> set (capacitySchema_validate ''capacity.'' cp)" if "bathrooms cp = Some x" "x < 0" for x
    using that by (simp add: capacitySchema_validate_eq)
  show "\<forall>(field, path, m) \<in> set [(guests, ''capacity.guests'', 1),
        (bedrooms, ''capacity.bedrooms'', 0), (beds, ''capacity.beds'', 1),
        (bathrooms, ''capacity.bathrooms'', 0)].
      \<forall>x. field cp = Some x \<and> x < m \<longrightarrow>
        (capacity input = Some cp \<longrightarrow>
           rejected_with (ValidatorError path KMin None) c (HomestayModel_create now input c))
        \<and> (capacity upd = Some cp \<and> i < length c \<longrightarrow>
           rejected_with (ValidatorError path KMin None) c (HomestayModel_update now i upd c))"
    using homestay_capacity_rejected [OF guests] homestay_capacity_rejected [OF bedrooms]
      homestay_capacity_rejected [OF beds] homestay_capacity_rejected [OF bathrooms]
    by auto
next
  assume a: "HomestayModel_create now (input\<lparr>capacity := Some (cp\<lparr>guests := Some g_ok\<rparr>)\<rparr>) c
        = (Inr i_ok, c_ok)"
  let ?new = "homestaySchema_applyDefaults (homestaySchema_applySetters
      (homestay_of_input (input\<lparr>capacity := Some (cp\<lparr>guests := Some g\<rparr>)\<rparr>)))"
  have iff: "homestaySchema_validate ?new = [] \<longleftrightarrow> 1 \<le> g"
    by (rule homestay_guests_valid_iff [OF HomestayModel_create_accepted [OF a]])
  show "if g < 1
       then rejected_with (ValidatorError ''capacity.guests'' KMin None) c
              (HomestayModel_create now (input\<lparr>capacity := Some (cp\<lparr>guests := Some g\<rparr>)\<rparr>) c)
       else \<exists>d. HomestayModel_create now
                   (input\<lparr>capacity := Some (cp\<lparr>guests := Some g\<rparr>)\<rparr>) c
                 = (Inr (length c), c @ [d])
               \<and> capacity (doc d) = Some (cp\<lparr>guests := Some g\<rparr>)"
  proof (cases "g < 1")
    case True
    have "ValidatorError ''capacity.guests'' KMin None
        \<in> set (capacitySchema_validate ''capacity.'' (cp\<lparr>guests := Some g\<rparr>))"
      using True by (simp add: capacitySchema_validate_eq)
    with homestay_capacity_errors_new
      [of "input\<lparr>capacity := Some (cp\<lparr>guests := Some g\<rparr>)\<rparr>" "cp\<lparr>guests := Some g\<rparr>"]
    have "ValidatorError ''capacity.guests'' KMin None \<in> set (homestaySchema_validate ?new)"
      by auto
    from HomestayModel_create_rejects [OF this] True show ?thesis by simp
  next
    case False
    then have "homestaySchema_validate ?new = []" using iff by simp
    then show ?thesis
      using False homestay_new_capacity [where input = input and cp = "cp\<lparr>guests := Some g\<rparr>"]
      by (simp add: HomestayModel_create_cases homestay_create_cases)
  qed
qed


theorem homestay_capacity_bounds_witness:
  "rejected_with (ValidatorError ''capacity.guests'' KMin None) []
     (HomestayModel_create 0
        (sample_homestay\<lparr>capacity :=
           Some (\<lparr>guests = Some 1, bedrooms = Some 0, beds = Some 1, bathrooms = Some 0\<rparr>
                   \<lparr>guests := Some 0\<rparr>)\<rparr>) [])
   \<and> (\<exists>d. HomestayModel_create 0
        (sample_homestay\<lparr>capacity :=
           Some (\<lparr>guests = Some 1, bedrooms = Some 0, beds = Some 1, bathrooms = Some 0\<rparr>
                   \<lparr>guests := Some 1\<rparr>)\<rparr>) []
      = (Inr 0, [d])
      \<and> capacity (doc d)
        = Some \<lparr>guests = Some 1, bedrooms = Some 0, beds = Some 1, bathrooms = Some 0\<rparr>)
   \<and> rejected_with (ValidatorError ''capacity.beds'' KMin None)
       (snd (HomestayModel_create 0 sample_homestay []))
       (HomestayModel_update 5 0
          (homestay_no_changes\<lparr>capacity :=
             Some \<lparr>guests = Some 2, bedrooms = Some 1, beds = Some 0, bathrooms = Some 1\<rparr>\<rparr>)
          (snd (HomestayModel_create 0 sample_homestay [])))"
proof -
  let ?cp = "\<lparr>guests = Some 1, bedrooms = Some 0, beds = Some 1, bathrooms = Some 0\<rparr>"
  let ?bad = "\<lparr>guests = Some 2, bedrooms = Some 1, beds = Some 0, bathrooms = Some 1\<rparr>"
  let ?input = "sample_homestay\<lparr>capacity := Some (?cp\<lparr>guests := Some 1\<rparr>)\<rparr>"
  let ?c = "snd (HomestayModel_create 0 sample_homestay [])"
  have ok: "HomestayModel_create 0 ?input [] = (Inr 0, snd (HomestayModel_create 0 ?input []))"
    by (simp add: sample_homestay_def store_defs homestay_create_def homestay_schema_defs
        homestay_option_defs interp_defs string_defs)
  have len: "0 < length ?c"
    by (simp add: sample_homestay_def store_defs homestay_create_def homestay_schema_defs
        homestay_option_defs interp_defs string_defs)
  have sup: "capacity (homestay_no_changes\<lparr>capacity := Some ?bad\<rparr>) = Some ?bad"
    by simp
  show ?thesis
    using homestay_capacity_bounds [where cp = ?cp and input = sample_homestay and g_ok = 1
        and c = "[]" and now = 0 and i_ok = 0 and c_ok = "snd (HomestayModel_create 0 ?input [])"
        and g = 0]
      homestay_capacity_bounds [where cp = ?cp and input = sample_homestay and g_ok = 1
        and c = "[]" and now = 0 and i_ok = 0 and c_ok = "snd (HomestayModel_create 0 ?input [])"
        and g = 1]
      homestay_capacity_bounds [where cp = ?bad
        and upd = "homestay_no_changes\<lparr>capacity := Some ?bad\<rparr>" and c = ?c and i = 0
        and now = 5]
      ok len sup
    by simp
qed

section \<open>Homestay status\<close>


lemma homestay_status_update_valid:
  assumes "s \<in> set [''active'', ''inactive'', ''pending'']"
  shows "homestaySchema_applySetters (homestay_no_changes\<lparr>status := Some s\<rparr>)
           = homestay_no_changes\<lparr>status := Some s\<rparr>"
    and "homestaySchema_validateSupplied (homestay_no_changes\<lparr>status := Some s\<rparr>) = []"
proof -
  show "homestaySchema_applySetters (homestay_no_changes\<lparr>status := Some s\<rparr>)
           = homestay_no_changes\<lparr>status := Some s\<rparr>"
    by (simp add: homestaySchema_applySetters_def homestay_no_changes_def
        SchemaString_applySetters_def homestay_option_defs SchemaType_def)
  have "SchemaString_doValidate homestaySchema_status ''status'' (Some s) = []"
    using assms by (auto simp: homestaySchema_status_def interp_defs)
  then show "homestaySchema_validateSupplied (homestay_no_changes\<lparr>status := Some s\<rparr>) = []"
    unfolding homestaySchema_validateSupplied_def no_errors_supplied_iff
    by (simp add: homestaySchema_paths_def homestay_no_changes_def)
qed

lemma homestay_merge_status:
  "homestay_merge (homestay_no_changes\<lparr>status := Some s\<rparr>) h = h\<lparr>status := Some s\<rparr>"
  by (simp add: homestay_merge_def homestay_no_changes_def supplied_or_def)

text \<open>
  C6. A Homestay creation input has no \<^verbatim>\<open>status\<close> key (nor timestamps), and the stored
  document of an accepted creation has \<^verbatim>\<open>status\<close> \<^verbatim>\<open>'active'\<close>. Status transitions are
  unconstrained: for every pair of values of \<^verbatim>\<open>active\<close>, \<^verbatim>\<open>inactive\<close>, \<^verbatim>\<open>pending\<close>, an
  update that supplies only the second is accepted on a stored document whose status is the
  first, and sets the status (and \<^verbatim>\<open>updatedAt\<close>) and nothing else.
\<close>

theorem homestay_status_unconstrained:
  "status (homestay_of_input input) = None
   \<and> (HomestayModel_create now input c = (Inr i, c') \<longrightarrow>
        status (doc (c' ! i)) = Some ''active'')
   \<and> (\<forall>s \<in> set [''active'', ''inactive'', ''pending''].
       \<forall>s' \<in> set [''active'', ''inactive'', ''pending''].
         j < length hc \<and> status (doc (hc ! j)) = Some s \<longrightarrow>
           HomestayModel_update now' j (homestay_no_changes\<lparr>status := Some s'\<rparr>) hc
           = (Inr j, hc[j := (hc ! j)\<lparr>doc := (doc (hc ! j))\<lparr>status := Some s'\<rparr>,
                                     updatedAt := now'\<rparr>]))"
proof (intro conjI impI ballI)
  show "status (homestay_of_input input) = None"
    by (simp add: homestay_of_input_def)
next
  assume a: "HomestayModel_create now input c = (Inr i, c')"
  note st = HomestayModel_create_stored [OF a]
  show "status (doc (c' ! i)) = Some ''active''"
    by (simp add: st homestay_new_defaults)
next
  fix s s'
  assume s': "s' \<in> set [''active'', ''inactive'', ''pending'']"
    and j: "j < length hc \<and> status (doc (hc ! j)) = Some s"
  have "homestay_update now' (homestay_no_changes\<lparr>status := Some s'\<rparr>) (hc ! j)
      = Inr ((hc ! j)\<lparr>doc := (doc (hc ! j))\<lparr>status := Some s'\<rparr>, updatedAt := now'\<rparr>)"
    by (simp add: homestay_update_cases homestay_status_update_valid [OF s']
        homestay_merge_status)
  with j show "HomestayModel_update now' j (homestay_no_changes\<lparr>status := Some s'\<rparr>) hc
           = (Inr j, hc[j := (hc ! j)\<lparr>doc := (doc (hc ! j))\<lparr>status := Some s'\<rparr>,
                                     updatedAt := now'\<rparr>])"
    by (simp add: HomestayModel_update_def collection_update_def)
qed

theorem homestay_status_unconstrained_witness:
  "status (doc (snd (HomestayModel_create 0 sample_homestay []) ! 0)) = Some ''active''
   \<and> HomestayModel_update 1 0 (homestay_no_changes\<lparr>status := Some ''pending''\<rparr>)
       (snd (HomestayModel_create 0 sample_homestay []))
     = (Inr 0,
        (snd (HomestayModel_create 0 sample_homestay []))
          [0 := (snd (HomestayModel_create 0 sample_homestay []) ! 0)
             \<lparr>doc := (doc (snd (HomestayModel_create 0 sample_homestay []) ! 0))
                       \<lparr>status := Some ''pending''\<rparr>,
              updatedAt := 1\<rparr>])"
proof -
  let ?c = "snd (HomestayModel_create 0 sample_homestay [])"
  have h: "HomestayModel_create 0 sample_homestay [] = (Inr 0, ?c)"
    by (simp add: sample_homestay_def store_defs homestay_create_def homestay_schema_defs
        homestay_option_defs interp_defs string_defs)
  have len: "0 < length ?c"
    by (simp add: sample_homestay_def store_defs homestay_create_def homestay_schema_defs
        homestay_option_defs interp_defs string_defs)
  note t = homestay_status_unconstrained [where input = sample_homestay and now = 0
      and c = "[]" and i = 0 and c' = ?c and j = 0 and hc = ?c and now' = 1]
  from t h have active: "status (doc (?c ! 0)) = Some ''active''" by blast
  from t have "\<forall>s \<in> set [''active'', ''inactive'', ''pending''].
       \<forall>s' \<in> set [''active'', ''inactive'', ''pending''].
         0 < length ?c \<and> status (doc (?c ! 0)) = Some s \<longrightarrow>
           HomestayModel_update 1 0 (homestay_no_changes\<lparr>status := Some s'\<rparr>) ?c
           = (Inr 0, ?c[0 := (?c ! 0)\<lparr>doc := (doc (?c ! 0))\<lparr>status := Some s'\<rparr>,
                                     updatedAt := 1\<rparr>])"
    by blast
  then have "0 < length ?c \<and> status (doc (?c ! 0)) = Some ''active'' \<longrightarrow>
           HomestayModel_update 1 0 (homestay_no_changes\<lparr>status := Some ''pending''\<rparr>) ?c
           = (Inr 0, ?c[0 := (?c ! 0)\<lparr>doc := (doc (?c ! 0))\<lparr>status := Some ''pending''\<rparr>,
                                     updatedAt := 1\<rparr>])"
    by simp
  with active len show ?thesis by blast
qed

section \<open>Timestamps and the frame of an update\<close>



















section \<open>Declared indexes\<close>

text \<open>
  C8. The secondary indexes declared are exactly these: for Guide, one on
  \<^verbatim>\<open>specializations\<close>, one on \<^verbatim>\<open>availability\<close>, one on \<^verbatim>\<open>location.district\<close>, and one
  text index over \<^verbatim>\<open>name\<close> and \<^verbatim>\<open>bio\<close>; for Homestay, one on \<^verbatim>\<open>location.district\<close>, one
  on \<^verbatim>\<open>pricing.basePrice\<close>, one on \<^verbatim>\<open>status\<close>, and one text index over \<^verbatim>\<open>title\<close> and
  \<^verbatim>\<open>description\<close>.
\<close>

theorem declared_indexes:
  "guideSchema_indexes =
     [[(''specializations'', Ascending)], [(''availability'', Ascending)],
      [(''location.district'', Ascending)], [(''name'', Text), (''bio'', Text)]]
   \<and> homestaySchema_indexes =
     [[(''location.district'', Ascending)], [(''pricing.basePrice'', Ascending)],
      [(''status'', Ascending)], [(''title'', Text), (''description'', Text)]]"
  by (simp add: guideSchema_indexes_def homestaySchema_indexes_def schema_index_def)

section \<open>Enumerated paths\<close>

lemma GuideModel_create_rejects:
  assumes "e \<in> set (guideSchema_validate (guideSchema_applyDefaults
      (guideSchema_applySetters input)))"
  shows "rejected_with e c (GuideModel_create now input c)"
  using rejected_create [OF assms, of now c] by (auto simp: rejected_with_def)

lemma GuideModel_update_rejects:
  assumes "e \<in> set (guideSchema_validateSupplied (guideSchema_applySetters input))"
    and "i < length c"
  shows "rejected_with e c (GuideModel_update now i input c)"
  using rejected_update [OF assms, of now] by (auto simp: rejected_with_def)

lemma guide_availability_validate_eq:
  "SchemaString_doValidate guideSchema_availability path (Some v) =
     (if v \<in> set [''available'', ''busy'', ''unavailable''] then []
      else [ValidatorError path KEnum None])"
  by (simp add: guideSchema_availability_def interp_defs)

lemma homestay_propertyType_validate_eq:
  "SchemaString_doValidate homestaySchema_propertyType path (Some v) =
     (if v = [] then [ValidatorError path KRequired None]
      else if v \<in> set [''entire'', ''private'', ''shared''] then []
      else [ValidatorError path KEnum None])"
  by (simp add: homestaySchema_propertyType_def interp_defs)

lemma homestay_status_validate_eq:
  "SchemaString_doValidate homestaySchema_status path (Some v) =
     (if v \<in> set [''active'', ''inactive'', ''pending''] then []
      else [ValidatorError path KEnum None])"
  by (simp add: homestaySchema_status_def interp_defs)

lemma guide_availability_errors:
  assumes "availability input = Some v"
  shows "set (SchemaString_doValidate guideSchema_availability ''availability'' (Some v))
      \<subseteq> set (guideSchema_validate (guideSchema_applyDefaults (guideSchema_applySetters input)))"
    and "set (SchemaString_doValidate guideSchema_availability ''availability'' (Some v))
      \<subseteq> set (guideSchema_validateSupplied (guideSchema_applySetters input))"
proof -
  have new: "availability (guideSchema_applyDefaults (guideSchema_applySetters input)) = Some v"
    and upd: "availability (guideSchema_applySetters input) = Some v"
    using assms
    by (simp_all add: guideSchema_applyDefaults_def guideSchema_applySetters_def
        guideSchema_availability_def SchemaString_applySetters_def applyDefault_def
        SchemaType_def)
  show "set (SchemaString_doValidate guideSchema_availability ''availability'' (Some v))
      \<subseteq> set (guideSchema_validate (guideSchema_applyDefaults (guideSchema_applySetters input)))"
    unfolding guideSchema_validate_def
    by (rule path_errors_in_all [where b = True]) (simp add: guideSchema_paths_def new)
  show "set (SchemaString_doValidate guideSchema_availability ''availability'' (Some v))
      \<subseteq> set (guideSchema_validateSupplied (guideSchema_applySetters input))"
    unfolding guideSchema_validateSupplied_def
    by (rule path_errors_in_supplied) (simp add: guideSchema_paths_def upd)
qed

lemma homestay_propertyType_errors_new:
  assumes "propertyType input = Some v"
  shows "set (SchemaString_doValidate homestaySchema_propertyType ''propertyType'' (Some v))
      \<subseteq> set (homestaySchema_validate (homestaySchema_applyDefaults
            (homestaySchema_applySetters (homestay_of_input input))))"
proof -
  have "propertyType (homestaySchema_applyDefaults
      (homestaySchema_applySetters (homestay_of_input input))) = Some v"
    using assms
    by (simp add: homestaySchema_applyDefaults_def homestaySchema_applySetters_def
        homestay_of_input_def homestaySchema_propertyType_def SchemaString_applySetters_def
        applyDefault_def SchemaType_def)
  then show ?thesis
    unfolding homestaySchema_validate_def
    by (intro path_errors_in_all [where b = True]) (simp add: homestaySchema_paths_def)
qed

lemma homestay_enum_errors_supplied:
  "propertyType upd = Some v \<Longrightarrow>
   set (SchemaString_doValidate homestaySchema_propertyType ''propertyType'' (Some v))
      \<subseteq> set (homestaySchema_validateSupplied (homestaySchema_applySetters upd))"
  "status upd = Some w \<Longrightarrow>
   set (SchemaString_doValidate homestaySchema_status ''status'' (Some w))
      \<subseteq> set (homestaySchema_validateSupplied (homestaySchema_applySetters upd))"
  unfolding homestaySchema_validateSupplied_def
  by (rule path_errors_in_supplied,
      simp add: homestaySchema_paths_def homestaySchema_applySetters_def
        homestaySchema_propertyType_def homestaySchema_status_def
        SchemaString_applySetters_def SchemaType_def)+

lemma HomestayModel_create_object_rejects:
  assumes "e \<in> set (homestaySchema_validate (homestaySchema_applyDefaults
      (homestaySchema_applySetters obj)))"
  shows "rejected_with e c (HomestayModel_create_object now obj c)"
proof -
  from assms have "homestaySchema_validate (homestaySchema_applyDefaults
      (homestaySchema_applySetters obj)) \<noteq> []"
    by auto
  with assms show ?thesis
    by (simp add: rejected_with_def HomestayModel_create_object_def collection_insert_def
        homestay_create_object_def Let_def)
qed

lemma homestay_create_object_typed:
  "homestay_create now input = homestay_create_object now (homestay_of_input input)"
  by (simp add: homestay_create_def homestay_create_object_def)

lemma homestay_enum_errors_object:
  "propertyType obj = Some v \<Longrightarrow>
   set (SchemaString_doValidate homestaySchema_propertyType ''propertyType'' (Some v))
      \<subseteq> set (homestaySchema_validate (homestaySchema_applyDefaults
            (homestaySchema_applySetters obj)))"
  "status obj = Some w \<Longrightarrow>
   set (SchemaString_doValidate homestaySchema_status ''status'' (Some w))
      \<subseteq> set (homestaySchema_validate (homestaySchema_applyDefaults
            (homestaySchema_applySetters obj)))"
  unfolding homestaySchema_validate_def
  by (rule path_errors_in_all [where b = True],
      simp add: homestaySchema_paths_def homestaySchema_applyDefaults_def
        homestaySchema_applySetters_def homestaySchema_propertyType_def
        homestaySchema_status_def SchemaString_applySetters_def applyDefault_def
        SchemaType_def)+

text \<open>
  C9 (as amended). A value outside the enumeration that a creation or update input supplies
  for Guide \<^verbatim>\<open>availability\<close>, for Homestay \<^verbatim>\<open>propertyType\<close> or for Homestay \<^verbatim>\<open>status\<close>
  (on creation, in an object that carries the key) is rejected by validation and nothing is
  stored. The error on the path has kind \<^verbatim>\<open>enum\<close>, except for the empty string as
  \<^verbatim>\<open>propertyType\<close>, which the path's \<^verbatim>\<open>required\<close> validator refuses first, with kind
  \<^verbatim>\<open>required\<close>.
\<close>

theorem enum_values_enforced:
  "(v \<notin> set [''available'', ''busy'', ''unavailable''] \<and> availability gi = Some v \<longrightarrow>
      rejected_with (ValidatorError ''availability'' KEnum None) gc
        (GuideModel_create now gi gc)
      \<and> (i < length gc \<longrightarrow>
           rejected_with (ValidatorError ''availability'' KEnum None) gc
             (GuideModel_update now i gi gc)))
   \<and> (v \<notin> set [''entire'', ''private'', ''shared''] \<and> propertyType hi = Some v \<longrightarrow>
      rejected_with (ValidatorError ''propertyType'' (if v = [] then KRequired else KEnum) None)
        hc (HomestayModel_create now hi hc))
   \<and> (v \<notin> set [''entire'', ''private'', ''shared''] \<and> propertyType hu = Some v \<longrightarrow>
      rejected_with (ValidatorError ''propertyType'' (if v = [] then KRequired else KEnum) None)
        hc (HomestayModel_create_object now hu hc))
   \<and> (v \<notin> set [''entire'', ''private'', ''shared''] \<and> propertyType hu = Some v
        \<and> m < length hc \<longrightarrow>
      rejected_with (ValidatorError ''propertyType'' (if v = [] then KRequired else KEnum) None)
        hc (HomestayModel_update now m hu hc))
   \<and> (v \<notin> set [''active'', ''inactive'', ''pending''] \<and> status hu = Some v \<longrightarrow>
      rejected_with (ValidatorError ''status'' KEnum None) hc
        (HomestayModel_create_object now hu hc))
   \<and> (v \<notin> set [''active'', ''inactive'', ''pending''] \<and> status hu = Some v
        \<and> m < length hc \<longrightarrow>
      rejected_with (ValidatorError ''status'' KEnum None) hc
        (HomestayModel_update now m hu hc))"
proof (intro conjI impI)
  assume a: "v \<notin> set [''available'', ''busy'', ''unavailable''] \<and> availability gi = Some v"
  then have e: "ValidatorError ''availability'' KEnum None
      \<in> set (SchemaString_doValidate guideSchema_availability ''availability'' (Some v))"
    by (simp add: guide_availability_validate_eq)
  from a have s: "availability gi = Some v" by simp
  from e guide_availability_errors(1) [OF s]
  show "rejected_with (ValidatorError ''availability'' KEnum None) gc
      (GuideModel_create now gi gc)"
    by (intro GuideModel_create_rejects) blast
  assume i: "i < length gc"
  from e guide_availability_errors(2) [OF s]
  have "ValidatorError ''availability'' KEnum None
      \<in> set (guideSchema_validateSupplied (guideSchema_applySetters gi))"
    by blast
  then show "rejected_with (ValidatorError ''availability'' KEnum None) gc
      (GuideModel_update now i gi gc)"
    using i by (rule GuideModel_update_rejects)
next
  assume a: "v \<notin> set [''entire'', ''private'', ''shared''] \<and> propertyType hi = Some v"
  then have e: "ValidatorError ''propertyType'' (if v = [] then KRequired else KEnum) None
      \<in> set (SchemaString_doValidate homestaySchema_propertyType ''propertyType'' (Some v))"
    by (simp add: homestay_propertyType_validate_eq)
  from a have s: "propertyType hi = Some v" by simp
  from e homestay_propertyType_errors_new [OF s]
  show "rejected_with (ValidatorError ''propertyType'' (if v = [] then KRequired else KEnum) None)
      hc (HomestayModel_create now hi hc)"
    by (intro HomestayModel_create_rejects) blast
next
  assume a: "v \<notin> set [''entire'', ''private'', ''shared''] \<and> propertyType hu = Some v"
  then have e: "ValidatorError ''propertyType'' (if v = [] then KRequired else KEnum) None
      \<in> set (SchemaString_doValidate homestaySchema_propertyType ''propertyType'' (Some v))"
    by (simp add: homestay_propertyType_validate_eq)
  from a have s: "propertyType hu = Some v" by simp
  from e homestay_enum_errors_object(1) [OF s]
  show "rejected_with (ValidatorError ''propertyType'' (if v = [] then KRequired else KEnum) None)
      hc (HomestayModel_create_object now hu hc)"
    by (intro HomestayModel_create_object_rejects) blast
next
  assume a: "v \<notin> set [''entire'', ''private'', ''shared''] \<and> propertyType hu = Some v
      \<and> m < length hc"
  then have e: "ValidatorError ''propertyType'' (if v = [] then KRequired else KEnum) None
      \<in> set (SchemaString_doValidate homestaySchema_propertyType ''propertyType'' (Some v))"
    by (simp add: homestay_propertyType_validate_eq)
  from a have s: "propertyType hu = Some v" and m: "m < length hc" by simp_all
  from e homestay_enum_errors_supplied(1) [OF s]
  have "ValidatorError ''propertyType'' (if v = [] then KRequired else KEnum) None
      \<in> set (homestaySchema_validateSupplied (homestaySchema_applySetters hu))"
    by blast
  then show "rejected_with
      (ValidatorError ''propertyType'' (if v = [] then KRequired else KEnum) None)
      hc (HomestayModel_update now m hu hc)"
    using m by (rule HomestayModel_update_rejects)
next
  assume a: "v \<notin> set [''active'', ''inactive'', ''pending''] \<and> status hu = Some v"
  then have e: "ValidatorError ''status'' KEnum None
      \<in> set (SchemaString_doValidate homestaySchema_status ''status'' (Some v))"
    by (simp add: homestay_status_validate_eq)
  from a have s: "status hu = Some v" by simp
  from e homestay_enum_errors_object(2) [OF s]
  show "rejected_with (ValidatorError ''status'' KEnum None) hc
      (HomestayModel_create_object now hu hc)"
    by (intro HomestayModel_create_object_rejects) blast
next
  assume a: "v \<notin> set [''active'', ''inactive'', ''pending''] \<and> status hu = Some v
      \<and> m < length hc"
  then have e: "ValidatorError ''status'' KEnum None
      \<in> set (SchemaString_doValidate homestaySchema_status ''status'' (Some v))"
    by (simp add: homestay_status_validate_eq)
  from a have s: "status hu = Some v" and m: "m < length hc" by simp_all
  from e homestay_enum_errors_supplied(2) [OF s]
  have "ValidatorError ''status'' KEnum None
      \<in> set (homestaySchema_validateSupplied (homestaySchema_applySetters hu))"
    by blast
  then show "rejected_with (ValidatorError ''status'' KEnum None) hc
      (HomestayModel_update now m hu hc)"
    using m by (rule HomestayModel_update_rejects)
qed

theorem enum_values_enforced_witness:
  "rejected_with (ValidatorError ''availability'' KEnum None) []
     (GuideModel_create 0 (sample_guide\<lparr>availability := Some ''on leave''\<rparr>) [])
   \<and> rejected_with (ValidatorError ''propertyType'' KEnum None) []
     (HomestayModel_create 0 (sample_homestay\<lparr>propertyType := Some ''villa''\<rparr>) [])
   \<and> rejected_with (ValidatorError ''status'' KEnum None) []
     (HomestayModel_create_object 0
        ((homestay_of_input sample_homestay)\<lparr>status := Some ''archived''\<rparr>) [])
   \<and> rejected_with (ValidatorError ''status'' KEnum None)
       (snd (HomestayModel_create 0 sample_homestay []))
       (HomestayModel_update 1 0 (homestay_no_changes\<lparr>status := Some ''archived''\<rparr>)
          (snd (HomestayModel_create 0 sample_homestay [])))"
proof -
  let ?c = "snd (HomestayModel_create 0 sample_homestay [])"
  have len: "0 < length ?c"
    by (simp add: sample_homestay_def store_defs homestay_create_def homestay_schema_defs
        homestay_option_defs interp_defs string_defs)
  have "rejected_with (ValidatorError ''availability'' KEnum None) []
     (GuideModel_create 0 (sample_guide\<lparr>availability := Some ''on leave''\<rparr>) [])"
    using enum_values_enforced [where v = "''on leave''"
        and gi = "sample_guide\<lparr>availability := Some ''on leave''\<rparr>" and gc = "[]" and now = 0,
        THEN conjunct1]
    by simp
  moreover have "rejected_with (ValidatorError ''propertyType'' KEnum None) []
     (HomestayModel_create 0 (sample_homestay\<lparr>propertyType := Some ''villa''\<rparr>) [])"
    using enum_values_enforced [where v = "''villa''"
        and hi = "sample_homestay\<lparr>propertyType := Some ''villa''\<rparr>" and hc = "[]" and now = 0,
        THEN conjunct2, THEN conjunct1]
    by simp
  moreover have "rejected_with (ValidatorError ''status'' KEnum None) []
     (HomestayModel_create_object 0
        ((homestay_of_input sample_homestay)\<lparr>status := Some ''archived''\<rparr>) [])"
    using enum_values_enforced [where v = "''archived''"
        and hu = "(homestay_of_input sample_homestay)\<lparr>status := Some ''archived''\<rparr>"
        and hc = "[]" and now = 0,
        THEN conjunct2, THEN conjunct2, THEN conjunct2, THEN conjunct2, THEN conjunct1]
    by simp
  moreover have "rejected_with (ValidatorError ''status'' KEnum None) ?c
       (HomestayModel_update 1 0 (homestay_no_changes\<lparr>status := Some ''archived''\<rparr>) ?c)"
    using enum_values_enforced [where v = "''archived''"
        and hu = "homestay_no_changes\<lparr>status := Some ''archived''\<rparr>" and hc = ?c and m = 0
        and now = 1, THEN conjunct2, THEN conjunct2, THEN conjunct2, THEN conjunct2,
        THEN conjunct2] len
    by simp
  ultimately show ?thesis by simp
qed

text \<open>
  C9 as stated gives every such rejection the kind of an invalid enumeration value. The empty
  string as \<^verbatim>\<open>propertyType\<close> is outside the enumeration, and the only error of the creation
  is of kind \<^verbatim>\<open>required\<close>.
\<close>

theorem empty_propertyType_counterexample:
  "HomestayModel_create 0 (sample_homestay\<lparr>propertyType := Some ''''\<rparr>) []
   = (Inl (ValidationError [ValidatorError ''propertyType'' KRequired None]), [])"
  by (simp add: sample_homestay_def store_defs homestay_create_def homestay_schema_defs
      homestay_option_defs interp_defs string_defs)

section \<open>Homestay optional numbers\<close>

lemma coordinatesSchema_validate_eq:
  "coordinatesSchema_validate prefix \<lparr>lat = Some la, lng = Some lo\<rparr> = []"
  "coordinatesSchema_init \<lparr>lat = Some la, lng = Some lo\<rparr> = \<lparr>lat = Some la, lng = Some lo\<rparr>"
  by (simp_all add: coordinatesSchema_validate_def coordinatesSchema_init_def
      homestay_option_defs interp_defs)

lemma homestay_locationSchema_coordinates_free:
  assumes "homestay_locationSchema_validate prefix (homestay_locationSchema_init l) = []"
  shows "homestay_locationSchema_validate prefix
      (homestay_locationSchema_init (l\<lparr>coordinates := Some \<lparr>lat = Some la, lng = Some lo\<rparr>\<rparr>)) = []"
    and "coordinates (homestay_locationSchema_init
        (l\<lparr>coordinates := Some \<lparr>lat = Some la, lng = Some lo\<rparr>\<rparr>))
      = Some \<lparr>lat = Some la, lng = Some lo\<rparr>"
  using assms
  by (simp_all add: homestay_locationSchema_validate_def homestay_locationSchema_init_def
      coordinatesSchema_validate_eq Subdocument_doValidate_Some applyDefault_def)

lemma homestay_pricingSchema_optional_free:
  assumes "homestay_pricingSchema_validate prefix p = []"
  shows "homestay_pricingSchema_validate prefix (p\<lparr>cleaningFee := fee, weekendPrice := wk\<rparr>) = []"
  using assms by (simp add: homestay_pricingSchema_validate_eq)

lemma homestay_optional_numbers_valid:
  assumes "homestaySchema_validate (homestaySchema_applyDefaults (homestaySchema_applySetters
      (homestay_of_input (input\<lparr>homestay_pricing := Some p, homestay_location := Some l\<rparr>)))) = []"
  shows "homestaySchema_validate (homestaySchema_applyDefaults (homestaySchema_applySetters
      (homestay_of_input (input\<lparr>homestay_pricing := Some (p\<lparr>cleaningFee := fee,
          weekendPrice := wk\<rparr>),
        homestay_location := Some (l\<lparr>coordinates := Some \<lparr>lat = Some la, lng = Some lo\<rparr>\<rparr>)\<rparr>))))
    = []"
  using assms
  by (simp add: homestay_valid_iff homestaySchema_applyDefaults_def
      homestaySchema_applySetters_def homestay_of_input_def homestay_pricingSchema_init_id
      Subdocument_doValidate_Some applyDefault_def homestay_locationSchema_coordinates_free
      homestay_pricingSchema_optional_free)

text \<open>
  C10. \<^verbatim>\<open>pricing.cleaningFee\<close>, \<^verbatim>\<open>pricing.weekendPrice\<close> and the two coordinates have no
  range constraint: whenever a Homestay creation input is accepted, the same input with any
  numbers at all for the four (a negative fee, a latitude of 1000) is accepted too, and the
  stored document holds the four exactly as supplied.
\<close>

theorem homestay_optional_numbers_unconstrained:
  assumes "HomestayModel_create now
      (input\<lparr>homestay_pricing := Some p, homestay_location := Some l\<rparr>) c = (Inr i, c')"
  shows "\<exists>d. HomestayModel_create now
      (input\<lparr>homestay_pricing := Some (p\<lparr>cleaningFee := Some fee, weekendPrice := Some wk\<rparr>),
        homestay_location := Some (l\<lparr>coordinates := Some \<lparr>lat = Some la, lng = Some lo\<rparr>\<rparr>)\<rparr>) c
      = (Inr (length c), c @ [d])
    \<and> map_option cleaningFee (homestay_pricing (doc d)) = Some (Some fee)
    \<and> map_option weekendPrice (homestay_pricing (doc d)) = Some (Some wk)
    \<and> map_option coordinates (homestay_location (doc d))
      = Some (Some \<lparr>lat = Some la, lng = Some lo\<rparr>)"
proof -
  let ?input = "input\<lparr>homestay_pricing :=
        Some (p\<lparr>cleaningFee := Some fee, weekendPrice := Some wk\<rparr>),
      homestay_location := Some (l\<lparr>coordinates := Some \<lparr>lat = Some la, lng = Some lo\<rparr>\<rparr>)\<rparr>"
  let ?new = "homestaySchema_applyDefaults (homestaySchema_applySetters
      (homestay_of_input ?input))"
  have valid: "homestaySchema_validate ?new = []"
    by (rule homestay_optional_numbers_valid [OF HomestayModel_create_accepted [OF assms]])
  have "homestay_pricing ?new = Some (p\<lparr>cleaningFee := Some fee, weekendPrice := Some wk\<rparr>)"
    and "homestay_location ?new = Some (homestay_locationSchema_init
        (l\<lparr>coordinates := Some \<lparr>lat = Some la, lng = Some lo\<rparr>\<rparr>))"
    by (simp_all add: homestaySchema_applyDefaults_def homestaySchema_applySetters_def
        homestay_of_input_def homestay_pricingSchema_init_id applyDefault_def)
  then have "map_option cleaningFee (homestay_pricing ?new) = Some (Some fee)"
    and "map_option weekendPrice (homestay_pricing ?new) = Some (Some wk)"
    and "map_option coordinates (homestay_location ?new)
      = Some (Some \<lparr>lat = Some la, lng = Some lo\<rparr>)"
    by (simp_all add: homestay_locationSchema_init_def coordinatesSchema_validate_eq
        applyDefault_def)
  with valid show ?thesis
    by (simp add: HomestayModel_create_cases homestay_create_cases)
qed

theorem homestay_optional_numbers_unconstrained_witness:
  "\<exists>d. HomestayModel_create 0
      (sample_homestay\<lparr>homestay_pricing :=
          Some (\<lparr>basePrice = Some 100, cleaningFee = None, weekendPrice = None\<rparr>
                  \<lparr>cleaningFee := Some (- 50), weekendPrice := Some (- 1)\<rparr>),
        homestay_location :=
          Some (\<lparr>address = Some ''Main Road'', homestay_district = Some ''Ranchi'',
                  homestay_state = None, coordinates = None\<rparr>
                  \<lparr>coordinates := Some \<lparr>lat = Some 1000, lng = Some (- 1000)\<rparr>\<rparr>)\<rparr>) []
      = (Inr 0, [d])
    \<and> map_option cleaningFee (homestay_pricing (doc d)) = Some (Some (- 50))
    \<and> map_option weekendPrice (homestay_pricing (doc d)) = Some (Some (- 1))
    \<and> map_option coordinates (homestay_location (doc d))
      = Some (Some \<lparr>lat = Some 1000, lng = Some (- 1000)\<rparr>)"
proof -
  let ?p = "\<lparr>basePrice = Some 100, cleaningFee = None, weekendPrice = None\<rparr>"
  let ?l = "\<lparr>address = Some ''Main Road'', homestay_district = Some ''Ranchi'',
      homestay_state = None, coordinates = None\<rparr>"
  let ?input = "sample_homestay\<lparr>homestay_pricing := Some ?p, homestay_location := Some ?l\<rparr>"
  have ok: "HomestayModel_create 0 ?input [] = (Inr 0, snd (HomestayModel_create 0 ?input []))"
    by (simp add: sample_homestay_def store_defs homestay_create_def homestay_schema_defs
        homestay_option_defs interp_defs string_defs)
  show ?thesis
    using homestay_optional_numbers_unconstrained [OF ok, where fee = "- 50" and wk = "- 1"
        and la = 1000 and lo = "- 1000"]
    by simp
qed

end
